theory Spec2Isabelle
  imports Complex_Main "HOL-Library.Word" "HOL-Library.AList" "HOL-Library.Sublist"
begin

unbundle bit_operations_syntax

chapter \<open>The program\<close>

section \<open>Core types (crypto/core/types.ts)\<close>

datatype CryptoAlgorithmType =
    RSA_OAEP | ECDH
  | ML_KEM_512 | ML_KEM_768 | ML_KEM_1024 | CRYSTALS_Dilithium | SPHINCS_plus
  | Hybrid_RSA_ML_KEM | Hybrid_ECDH_ML_KEM | Hybrid_RSAOAEP_MLKEM512 | Hybrid_RSAOAEP_MLKEM1024

text \<open>The string literal behind every member of the union type.\<close>

fun algorithm_name :: "CryptoAlgorithmType \<Rightarrow> string" where
  "algorithm_name RSA_OAEP = ''RSA-OAEP''"
| "algorithm_name ECDH = ''ECDH''"
| "algorithm_name ML_KEM_512 = ''ML-KEM-512''"
| "algorithm_name ML_KEM_768 = ''ML-KEM-768''"
| "algorithm_name ML_KEM_1024 = ''ML-KEM-1024''"
| "algorithm_name CRYSTALS_Dilithium = ''CRYSTALS-Dilithium''"
| "algorithm_name SPHINCS_plus = ''SPHINCS+''"
| "algorithm_name Hybrid_RSA_ML_KEM = ''Hybrid-RSA-ML-KEM''"
| "algorithm_name Hybrid_ECDH_ML_KEM = ''Hybrid-ECDH-ML-KEM''"
| "algorithm_name Hybrid_RSAOAEP_MLKEM512 = ''Hybrid-RSAOAEP-MLKEM512''"
| "algorithm_name Hybrid_RSAOAEP_MLKEM1024 = ''Hybrid-RSAOAEP-MLKEM1024''"

datatype SecurityLevel =
    Quantum_vulnerable | Quantum_resistant | Quantum_safe | Hybrid
  | Low | Medium | High | Maximum

datatype KeyUsage = Encryption | Signing | Kex

datatype KeyStatus = Active | Rotating | Revoked | Expired

datatype EventType = Created | Used | Rotated | EvExpired | EvRevoked

datatype CryptoErrorCode =
    ALGORITHM_NOT_SUPPORTED | KEY_GENERATION_FAILED | ENCRYPTION_FAILED | DECRYPTION_FAILED
  | QUANTUM_THREAT_DETECTED | NIST_COMPLIANCE_VIOLATION | HYBRID_MODE_FAILURE
  | NOT_IMPLEMENTED | INVALID_OPERATION | SIGNATURE_FAILED

text \<open>
  What a call can throw: a \<open>CryptoError\<close> with its code and optional algorithm (the
  message text is left out), or any other exception, such as the rejection of a platform
  primitive or of a dynamic import.
\<close>

datatype exn = CryptoError CryptoErrorCode "CryptoAlgorithmType option" | OtherError

section \<open>Key Management Service (security/key-mgmt/key-manager.ts)\<close>

text \<open>
  Timestamps are milliseconds since the epoch. The field \<open>id\<close> of the source is
  \<open>keyId\<close> here, since \<open>id\<close> is the identity function of HOL.
\<close>

record KeyMetadata =
  keyId :: string
  algorithm :: CryptoAlgorithmType
  created :: nat
  lastUsed :: "nat option"
  rotatedAt :: "nat option"
  expiresAt :: "nat option"
  isQuantumSafe :: bool
  securityLevel :: SecurityLevel
  usage :: KeyUsage
  status :: KeyStatus

record KeyRotationPolicy =
  pol_algorithm :: CryptoAlgorithmType
  maxAge :: nat
  maxUsage :: nat
  autoRotate :: bool
  quantumThreatThreshold :: real

record KeyLifecycleEvent =
  ev_keyId :: string
  ev_type :: EventType
  ev_timestamp :: nat
  ev_algorithm :: CryptoAlgorithmType
  ev_details :: string
  ev_previousKeyId :: "string option"

text \<open>
  The service's private fields. \<open>keys\<close> is a JavaScript \<open>Map\<close>, whose iteration
  order is insertion order and whose \<open>set\<close> keeps the position of a key that is
  already there: an association list under \<open>AList.update\<close>. \<open>keyStore\<close> is only
  ever looked up by key: a map. The listeners are callbacks of the caller; \<open>emitted\<close>
  is the sequence of events \<open>emitEvent\<close> has handed to them. The type \<open>'k\<close> is the
  platform's \<open>CryptoKey\<close>.
\<close>

record 'k kms =
  keys :: "(string \<times> KeyMetadata) list"
  keyStore :: "string \<rightharpoonup> 'k"
  rotationPolicies :: "CryptoAlgorithmType \<rightharpoonup> KeyRotationPolicy"
  emitted :: "KeyLifecycleEvent list"

text \<open>
  What one call of \<open>generateKey\<close> reads from its environment: the clock, the
  digits \<open>Math.random().toString(36).substr(2, 9)\<close>, and the outcome of
  \<open>window.crypto.subtle.generateKey\<close>, either rejected with an \<open>Error\<close> of the
  given message or fulfilled with the pair (publicKey, privateKey). The clock is read
  once per call: the few readings of one call are taken to agree.
\<close>

record 'k draw =
  d_now :: nat
  d_rand :: string
  d_keygen :: "string + ('k \<times> 'k)"

text \<open>The \<open>Error\<close>s the service throws, and the message each carries.\<close>

datatype kms_error =
    KeyNotFound string
  | KeyGenNotImplemented CryptoAlgorithmType
  | PrimitiveFailure string

fun error_message :: "kms_error \<Rightarrow> string" where
  "error_message (KeyNotFound k) = ''Key '' @ k @ '' not found''"
| "error_message (KeyGenNotImplemented a) =
     ''Key generation for '' @ algorithm_name a @ '' not implemented yet''"
| "error_message (PrimitiveFailure m) = m"

text \<open>
  \<open>generateKeyId\<close>: \<open>'key_' + Date.now() + '_' +\<close> the random digits; \<open>decimal\<close>
  is the decimal numeral of the clock reading.
\<close>

definition digit_char :: "nat \<Rightarrow> char" where
  "digit_char n = ''0123456789'' ! n"

fun decimal :: "nat \<Rightarrow> string" where
  "decimal n = (if n < 10 then [digit_char n] else decimal (n div 10) @ [digit_char (n mod 10)])"

declare decimal.simps [simp del]

definition generateKeyId :: "nat \<Rightarrow> string \<Rightarrow> string" where
  "generateKeyId now rnd = ''key_'' @ decimal now @ ''_'' @ rnd"

text \<open>
  The quantum-safe flag, security level and usage role are computed from the algorithm's
  name with \<open>startsWith\<close> and \<open>includes\<close>.
\<close>

definition startsWith :: "string \<Rightarrow> string \<Rightarrow> bool" where
  "startsWith s p = (take (length p) s = p)"

fun includes_str :: "string \<Rightarrow> string \<Rightarrow> bool" where
  "includes_str [] p = (p = [])"
| "includes_str (c # s) p = (startsWith (c # s) p \<or> includes_str s p)"

definition isQuantumSafeAlgorithm :: "CryptoAlgorithmType \<Rightarrow> bool" where
  "isQuantumSafeAlgorithm a =
     (startsWith (algorithm_name a) ''ML-KEM'' \<or>
      startsWith (algorithm_name a) ''Dilithium'' \<or>
      startsWith (algorithm_name a) ''Hybrid'')"

definition getAlgorithmSecurityLevel :: "CryptoAlgorithmType \<Rightarrow> SecurityLevel" where
  "getAlgorithmSecurityLevel a =
     (if includes_str (algorithm_name a) ''1024'' then Maximum
      else if includes_str (algorithm_name a) ''768'' then High
      else if includes_str (algorithm_name a) ''512'' then Medium
      else if includes_str (algorithm_name a) ''RSA'' then Low
      else Medium)"

definition getKeyUsage :: "CryptoAlgorithmType \<Rightarrow> KeyUsage" where
  "getKeyUsage a =
     (if includes_str (algorithm_name a) ''KEM'' then Kex
      else if includes_str (algorithm_name a) ''Dilithium'' then Signing
      else Encryption)"

definition createKeyPair :: "'k draw \<Rightarrow> CryptoAlgorithmType \<Rightarrow> kms_error + ('k \<times> 'k)" where
  "createKeyPair d a =
     (if a = RSA_OAEP then
        (case d_keygen d of Inl m \<Rightarrow> Inl (PrimitiveFailure m) | Inr kp \<Rightarrow> Inr kp)
      else Inl (KeyGenNotImplemented a))"

definition emitEvent :: "KeyLifecycleEvent \<Rightarrow> 'k kms \<Rightarrow> 'k kms" where
  "emitEvent e s = s\<lparr>emitted := emitted s @ [e]\<rparr>"

definition new_metadata :: "'k kms \<Rightarrow> string \<Rightarrow> nat \<Rightarrow> CryptoAlgorithmType \<Rightarrow> KeyMetadata" where
  "new_metadata s kid now a =
     \<lparr>keyId = kid, algorithm = a, created = now, lastUsed = None, rotatedAt = None,
      expiresAt = (case rotationPolicies s a of None \<Rightarrow> None | Some p \<Rightarrow> Some (now + maxAge p)),
      isQuantumSafe = isQuantumSafeAlgorithm a,
      securityLevel = getAlgorithmSecurityLevel a,
      usage = getKeyUsage a,
      status = Active\<rparr>"

definition generateKey :: "'k draw \<Rightarrow> 'k kms \<Rightarrow> CryptoAlgorithmType \<Rightarrow> (kms_error + string) \<times> 'k kms" where
  "generateKey d s a =
     (let kid = generateKeyId (d_now d) (d_rand d) in
      case createKeyPair d a of
        Inl e \<Rightarrow> (Inl e, s)
      | Inr (pub, priv) \<Rightarrow>
          (Inr kid,
           emitEvent
             \<lparr>ev_keyId = kid, ev_type = Created, ev_timestamp = d_now d, ev_algorithm = a,
              ev_details = ''Key generated with '' @ algorithm_name a, ev_previousKeyId = None\<rparr>
             (s\<lparr>keys := AList.update kid (new_metadata s kid (d_now d) a) (keys s),
                keyStore := (keyStore s)(kid \<mapsto> priv, kid @ ''_pub'' \<mapsto> pub)\<rparr>)))"

definition rotateKey :: "'k draw \<Rightarrow> 'k kms \<Rightarrow> string \<Rightarrow> (kms_error + string) \<times> 'k kms" where
  "rotateKey d s kid =
     (case map_of (keys s) kid of
        None \<Rightarrow> (Inl (KeyNotFound kid), s)
      | Some old \<Rightarrow>
          (let s1 = s\<lparr>keys := AList.update kid
                       (old\<lparr>status := Rotating, rotatedAt := Some (d_now d)\<rparr>) (keys s)\<rparr>
           in case generateKey d s1 (algorithm old) of
                (Inl e, s2) \<Rightarrow> (Inl e, s2)
              | (Inr newId, s2) \<Rightarrow>
                  (Inr newId,
                   emitEvent
                     \<lparr>ev_keyId = newId, ev_type = Rotated, ev_timestamp = d_now d,
                      ev_algorithm = algorithm old,
                      ev_details = ''Key rotated from '' @ kid,
                      ev_previousKeyId = Some kid\<rparr> s2)))"

definition revokeKey :: "nat \<Rightarrow> 'k kms \<Rightarrow> string \<Rightarrow> (kms_error + unit) \<times> 'k kms" where
  "revokeKey now s kid =
     (case map_of (keys s) kid of
        None \<Rightarrow> (Inl (KeyNotFound kid), s)
      | Some md \<Rightarrow>
          (Inr (),
           emitEvent
             \<lparr>ev_keyId = kid, ev_type = EvRevoked, ev_timestamp = now,
              ev_algorithm = algorithm md, ev_details = ''Key manually revoked'',
              ev_previousKeyId = None\<rparr>
             (s\<lparr>keys := AList.update kid (md\<lparr>status := Revoked\<rparr>) (keys s),
                keyStore := (keyStore s)(kid := None, kid @ ''_pub'' := None)\<rparr>)))"

definition recordKeyUsage :: "nat \<Rightarrow> 'k kms \<Rightarrow> string \<Rightarrow> 'k kms" where
  "recordKeyUsage now s kid =
     (case map_of (keys s) kid of
        None \<Rightarrow> s
      | Some md \<Rightarrow>
          emitEvent
            \<lparr>ev_keyId = kid, ev_type = Used, ev_timestamp = now, ev_algorithm = algorithm md,
             ev_details = ''Key used for operation'', ev_previousKeyId = None\<rparr>
            (s\<lparr>keys := AList.update kid (md\<lparr>lastUsed := Some now\<rparr>) (keys s)\<rparr>))"

definition setRotationPolicy :: "CryptoAlgorithmType \<Rightarrow> KeyRotationPolicy \<Rightarrow> 'k kms \<Rightarrow> 'k kms" where
  "setRotationPolicy a p s = s\<lparr>rotationPolicies := (rotationPolicies s)(a \<mapsto> p)\<rparr>"

definition day_ms :: nat where
  "day_ms = 24 * 60 * 60 * 1000"

definition initializeDefaultPolicies :: "CryptoAlgorithmType \<rightharpoonup> KeyRotationPolicy" where
  "initializeDefaultPolicies =
     [RSA_OAEP \<mapsto> \<lparr>pol_algorithm = RSA_OAEP, maxAge = 90 * day_ms, maxUsage = 10000,
                     autoRotate = True, quantumThreatThreshold = 50\<rparr>,
      ML_KEM_512 \<mapsto> \<lparr>pol_algorithm = ML_KEM_512, maxAge = 365 * day_ms, maxUsage = 100000,
                     autoRotate = True, quantumThreatThreshold = 95\<rparr>,
      ML_KEM_768 \<mapsto> \<lparr>pol_algorithm = ML_KEM_768, maxAge = 365 * day_ms, maxUsage = 100000,
                     autoRotate = True, quantumThreatThreshold = 95\<rparr>,
      ML_KEM_1024 \<mapsto> \<lparr>pol_algorithm = ML_KEM_1024, maxAge = 2 * 365 * day_ms,
                     maxUsage = 500000, autoRotate = True, quantumThreatThreshold = 98\<rparr>,
      Hybrid_RSA_ML_KEM \<mapsto> \<lparr>pol_algorithm = Hybrid_RSA_ML_KEM, maxAge = 180 * day_ms,
                     maxUsage = 50000, autoRotate = True, quantumThreatThreshold = 70\<rparr>]"

text \<open>The service right after its constructor has run.\<close>

definition initial_kms :: "'k kms" where
  "initial_kms =
     \<lparr>keys = [], keyStore = Map.empty, rotationPolicies = initializeDefaultPolicies,
      emitted = []\<rparr>"

text \<open>The three getters return \<open>null\<close> for a missing entry: \<open>None\<close>.\<close>

definition getKey :: "'k kms \<Rightarrow> string \<Rightarrow> 'k option" where
  "getKey s kid = keyStore s kid"

definition getPublicKey :: "'k kms \<Rightarrow> string \<Rightarrow> 'k option" where
  "getPublicKey s kid = keyStore s (kid @ ''_pub'')"

definition getKeyMetadata :: "'k kms \<Rightarrow> string \<Rightarrow> KeyMetadata option" where
  "getKeyMetadata s kid = map_of (keys s) kid"

section \<open>Key Management Service: scheduled rotation\<close>

text \<open>
  \<open>checkKeyRotationNeeds\<close> walks the entries of \<open>keys\<close> in order. \<open>now\<close> is the
  clock reading at its start and \<open>threat kid\<close> the value
  \<open>getCurrentQuantumThreatLevel\<close> returns when the walk has reached key \<open>kid\<close>.
\<close>

fun scanKeys :: "nat \<Rightarrow> (string \<Rightarrow> real) \<Rightarrow> (CryptoAlgorithmType \<rightharpoonup> KeyRotationPolicy) \<Rightarrow>
    (string \<times> KeyMetadata) list \<Rightarrow> string list" where
  "scanKeys now threat pols [] = []"
| "scanKeys now threat pols ((kid, md) # rest) =
     (if status md \<noteq> Active then scanKeys now threat pols rest
      else case pols (algorithm md) of
        None \<Rightarrow> scanKeys now threat pols rest
      | Some policy \<Rightarrow>
          (let aged = (case expiresAt md of None \<Rightarrow> False | Some t \<Rightarrow> now > t);
               threatened = (threat kid \<ge> quantumThreatThreshold policy \<and> \<not> isQuantumSafe md)
           in if aged \<or> threatened then kid # scanKeys now threat pols rest
              else scanKeys now threat pols rest))"

definition checkKeyRotationNeeds :: "nat \<Rightarrow> (string \<Rightarrow> real) \<Rightarrow> 'k kms \<Rightarrow> string list" where
  "checkKeyRotationNeeds now threat s = scanKeys now threat (rotationPolicies s) (keys s)"

text \<open>
  \<open>performScheduledRotations\<close>: the flagged keys are computed once; the loop calls
  \<open>rotateKey\<close> on each, with \<open>env kid\<close> what that call reads from its environment,
  and its \<open>catch\<close> turns a thrown error into an entry of \<open>failed\<close>.
\<close>

record rotation_report =
  rotated :: "string list"
  failed :: "(string \<times> string) list"

fun rotation_loop :: "(string \<Rightarrow> 'k draw) \<Rightarrow> 'k kms \<Rightarrow> string list \<Rightarrow> rotation_report \<Rightarrow>
    rotation_report \<times> 'k kms" where
  "rotation_loop env s [] r = (r, s)"
| "rotation_loop env s (kid # rest) r =
     (case rotateKey (env kid) s kid of
        (Inr newKeyId, s') \<Rightarrow> rotation_loop env s' rest (r\<lparr>rotated := rotated r @ [newKeyId]\<rparr>)
      | (Inl e, s') \<Rightarrow>
          rotation_loop env s' rest (r\<lparr>failed := failed r @ [(kid, error_message e)]\<rparr>))"

definition performScheduledRotations ::
    "nat \<Rightarrow> (string \<Rightarrow> real) \<Rightarrow> (string \<Rightarrow> 'k draw) \<Rightarrow> 'k kms \<Rightarrow> rotation_report \<times> 'k kms" where
  "performScheduledRotations now threat env s =
     rotation_loop env s (checkKeyRotationNeeds now threat s) \<lparr>rotated = [], failed = []\<rparr>"

text \<open>
  The states of the service: the one the constructor leaves, and those any public
  operation leads to from one of them, whatever the environment supplies.
\<close>

inductive reachable :: "'k kms \<Rightarrow> bool" where
  reach_init: "reachable initial_kms"
| reach_generateKey: "reachable s \<Longrightarrow> reachable (snd (generateKey d s a))"
| reach_rotateKey: "reachable s \<Longrightarrow> reachable (snd (rotateKey d s kid))"
| reach_revokeKey: "reachable s \<Longrightarrow> reachable (snd (revokeKey now s kid))"
| reach_recordKeyUsage: "reachable s \<Longrightarrow> reachable (recordKeyUsage now s kid)"
| reach_setRotationPolicy: "reachable s \<Longrightarrow> reachable (setRotationPolicy a p s)"
| reach_performScheduledRotations:
    "reachable s \<Longrightarrow> reachable (snd (performScheduledRotations now threat env s))"


definition newKeyId_of :: "'k draw \<Rightarrow> string" where
  "newKeyId_of d = generateKeyId (d_now d) (d_rand d)"

definition keygen_ok :: "'k draw \<Rightarrow> bool" where
  "keygen_ok d = (case d_keygen d of Inl m \<Rightarrow> False | Inr kp \<Rightarrow> True)"


section \<open>Key Management Service: operations as steps\<close>

text \<open>
  What an operation may do to a record it keeps: the identifier, the algorithm, the
  creation and expiry times, the quantum-safe flag, the security level and the usage role
  stay; the status stays or becomes rotating or revoked (\<open>lastUsed\<close> and
  \<open>rotatedAt\<close> are free).
\<close>

definition record_evolves :: "KeyMetadata \<Rightarrow> KeyMetadata \<Rightarrow> bool" where
  "record_evolves md md' =
     (keyId md' = keyId md \<and> algorithm md' = algorithm md \<and> created md' = created md \<and>
      expiresAt md' = expiresAt md \<and> isQuantumSafe md' = isQuantumSafe md \<and>
      securityLevel md' = securityLevel md \<and> usage md' = usage md \<and>
      (status md' = status md \<or> status md' = Rotating \<or> status md' = Revoked))"

text \<open>
  One call of a public operation. The identifier a call generates is taken to be new to
  the key table, as \<open>generateKeyId\<close> intends with its clock reading and random
  digits; for a batch, the identifiers of its rotations are new and pairwise different.
\<close>

definition fresh_batch :: "(string \<Rightarrow> 'k draw) \<Rightarrow> string list \<Rightarrow> 'k kms \<Rightarrow> bool" where
  "fresh_batch env ks s =
     (distinct (map (\<lambda>k. newKeyId_of (env k)) ks) \<and>
      list_all (\<lambda>k. getKeyMetadata s (newKeyId_of (env k)) = None) ks)"

inductive kms_step :: "'k kms \<Rightarrow> 'k kms \<Rightarrow> bool" where
  step_generateKey:
    "getKeyMetadata s (newKeyId_of d) = None \<Longrightarrow> kms_step s (snd (generateKey d s a))"
| step_rotateKey:
    "getKeyMetadata s (newKeyId_of d) = None \<Longrightarrow> kms_step s (snd (rotateKey d s kid))"
| step_revokeKey: "kms_step s (snd (revokeKey now s kid))"
| step_recordKeyUsage: "kms_step s (recordKeyUsage now s kid)"
| step_setRotationPolicy: "kms_step s (setRotationPolicy a p s)"
| step_performScheduledRotations:
    "fresh_batch env (checkKeyRotationNeeds now threat s) s \<Longrightarrow>
     kms_step s (snd (performScheduledRotations now threat env s))"

text \<open>
  The lifecycle as the specification words it, read generously: \<open>lifecycle_allows a b\<close>
  when \<open>b\<close> is \<open>a\<close> or lies further along
  active \<rightarrow> rotating \<rightarrow> revoked or active \<rightarrow> expired.
\<close>

fun lifecycle_allows :: "KeyStatus \<Rightarrow> KeyStatus \<Rightarrow> bool" where
  "lifecycle_allows Active b = True"
| "lifecycle_allows Rotating b = (b = Rotating \<or> b = Revoked)"
| "lifecycle_allows Revoked b = (b = Revoked)"
| "lifecycle_allows Expired b = (b = Expired)"

section \<open>Security Monitor (security/monitoring/security-monitor.ts)\<close>

text \<open>
  \<open>recommendAlgorithm\<close> awaits \<open>assessQuantumThreat\<close> and compares the number it
  resolves to with four constants; the argument here is that number.
\<close>

definition recommendAlgorithm :: "real \<Rightarrow> CryptoAlgorithmType" where
  "recommendAlgorithm threatLevel =
     (if threatLevel \<ge> 90 then ML_KEM_1024
      else if threatLevel \<ge> 70 then ML_KEM_768
      else if threatLevel \<ge> 50 then Hybrid_RSA_ML_KEM
      else if threatLevel \<ge> 25 then ML_KEM_512
      else RSA_OAEP)"

text \<open>
  The recommendation as the specification's test property words it, with the hybrid-mode
  flag of the configuration: at the hybrid tier, hybrid when the mode is enabled, else
  standard PQC.
\<close>

definition spec_recommendation :: "bool \<Rightarrow> real \<Rightarrow> CryptoAlgorithmType" where
  "spec_recommendation hybridEnabled score =
     (if score \<ge> 90 then ML_KEM_1024
      else if score \<ge> 70 then ML_KEM_768
      else if score \<ge> 50 then (if hybridEnabled then Hybrid_RSA_ML_KEM else ML_KEM_768)
      else if score \<ge> 25 then ML_KEM_512
      else RSA_OAEP)"

section \<open>The platform: Web Crypto, text encoding, base64\<close>

type_synonym byte = "8 word"

type_synonym bytes = "byte list"

text \<open>A JavaScript string that carries data: its UTF-16 code units.\<close>

type_synonym js_string = "16 word list"

text \<open>
  The providers call the browser for every primitive. The calls are parameters of the
  model: a record of functions over the platform's key type \<open>'k\<close>, each returning
  \<open>None\<close> where the platform call throws or rejects. \<open>rsa_oaep_encrypt\<close> takes the
  OAEP seed the platform draws, the AES-GCM functions take key, iv and data,
  \<open>ecdh_derive_key\<close> takes the public and the private key and gives the AES-GCM key.
\<close>

record 'k webcrypto =
  sha256 :: "bytes \<Rightarrow> bytes"
  aes_gcm_encrypt :: "'k \<Rightarrow> bytes \<Rightarrow> bytes \<Rightarrow> bytes option"
  aes_gcm_decrypt :: "'k \<Rightarrow> bytes \<Rightarrow> bytes \<Rightarrow> bytes option"
  rsa_oaep_encrypt :: "'k \<Rightarrow> bytes \<Rightarrow> bytes \<Rightarrow> bytes option"
  rsa_oaep_decrypt :: "'k \<Rightarrow> bytes \<Rightarrow> bytes option"
  import_spki_rsa :: "bytes \<Rightarrow> 'k option"
  import_pkcs8_rsa :: "bytes \<Rightarrow> 'k option"
  ecdh_derive_key :: "'k \<Rightarrow> 'k \<Rightarrow> 'k option"
  export_spki :: "'k \<Rightarrow> bytes option"
  import_spki_ecdh :: "bytes \<Rightarrow> 'k option"
  text_encode :: "js_string \<Rightarrow> bytes"
  text_decode :: "bytes \<Rightarrow> js_string"
  btoa :: "js_string \<Rightarrow> js_string option"
  atob :: "js_string \<Rightarrow> js_string option"

text \<open>A payload: \<open>string | ArrayBuffer\<close>.\<close>

datatype payload = Text js_string | Buffer bytes

text \<open>
  \<open>bufferToBase64\<close> and \<open>arrayBufferToBase64\<close> build the binary string with one
  \<open>String.fromCharCode\<close> per byte and hand it to \<open>btoa\<close>; \<open>base64ToBuffer\<close> and
  \<open>base64ToArrayBuffer\<close> store each \<open>charCodeAt\<close> of \<open>atob\<close>'s result into a
  \<open>Uint8Array\<close>, which keeps the low eight bits.
\<close>

definition bufferToBase64 :: "'k webcrypto \<Rightarrow> bytes \<Rightarrow> js_string option" where
  "bufferToBase64 P buffer = btoa P (map ucast buffer)"

definition base64ToBuffer :: "'k webcrypto \<Rightarrow> js_string \<Rightarrow> bytes option" where
  "base64ToBuffer P base64 = map_option (map ucast) (atob P base64)"

text \<open>
  A \<open>Uint8Array\<close> is a view of an \<open>ArrayBuffer\<close>: the buffer's bytes, and the
  offset and length of the part the array shows. \<open>contents\<close> are the bytes it shows;
  \<open>new_Uint8Array\<close> is an array that spans a buffer of its own.
\<close>

record Uint8Array =
  buffer :: bytes
  byteOffset :: nat
  byteLength :: nat

definition contents :: "Uint8Array \<Rightarrow> bytes" where
  "contents u = take (byteLength u) (drop (byteOffset u) (buffer u))"

definition new_Uint8Array :: "bytes \<Rightarrow> Uint8Array" where
  "new_Uint8Array bs = \<lparr>buffer = bs, byteOffset = 0, byteLength = length bs\<rparr>"

text \<open>A key argument of a provider: \<open>CryptoKey | Uint8Array\<close>.\<close>

datatype 'k key_arg = CryptoKey 'k | RawBytes Uint8Array

section \<open>Classical provider (crypto/classical/rsa-provider.ts)\<close>

definition RSA_importKey :: "'k webcrypto \<Rightarrow> js_string \<Rightarrow> exn + 'k" where
  "RSA_importKey P keyData =
     (case base64ToBuffer P keyData of
        None \<Rightarrow> Inl (CryptoError KEY_GENERATION_FAILED (Some RSA_OAEP))
      | Some keyBuffer \<Rightarrow>
          (case import_spki_rsa P keyBuffer of
             Some k \<Rightarrow> Inr k
           | None \<Rightarrow>
               (case import_pkcs8_rsa P keyBuffer of
                  Some k \<Rightarrow> Inr k
                | None \<Rightarrow> Inl (CryptoError KEY_GENERATION_FAILED (Some RSA_OAEP)))))"

text \<open>
  \<open>ensureCryptoKey\<close> rebuilds the view as \<open>bytes\<close>, with the key's offset and
  length, and then encodes \<open>bytes.buffer\<close>: the whole underlying buffer, not the part
  the array shows.
\<close>

definition ensureCryptoKey :: "'k webcrypto \<Rightarrow> 'k key_arg \<Rightarrow> exn + 'k" where
  "ensureCryptoKey P key =
     (case key of
        CryptoKey k \<Rightarrow> Inr k
      | RawBytes u \<Rightarrow>
          (let bytes = \<lparr>buffer = buffer u, byteOffset = byteOffset u, byteLength = byteLength u\<rparr>
           in case bufferToBase64 P (buffer bytes) of
                None \<Rightarrow> Inl OtherError
              | Some keyData \<Rightarrow> RSA_importKey P keyData))"

text \<open>
  The \<open>catch\<close> of \<open>encrypt\<close> rethrows a \<open>CryptoError\<close> and wraps anything else as
  ENCRYPTION_FAILED; the \<open>catch\<close> of \<open>decrypt\<close> wraps everything as DECRYPTION_FAILED.
\<close>

definition rethrow_or_wrap :: "CryptoErrorCode \<Rightarrow> exn \<Rightarrow> exn" where
  "rethrow_or_wrap c e =
     (case e of CryptoError c' a \<Rightarrow> e | OtherError \<Rightarrow> CryptoError c (Some RSA_OAEP))"

definition RSA_encrypt :: "'k webcrypto \<Rightarrow> bytes \<Rightarrow> js_string \<Rightarrow> 'k key_arg \<Rightarrow> exn + js_string" where
  "RSA_encrypt P seed d publicKey =
     (case ensureCryptoKey P publicKey of
        Inl e \<Rightarrow> Inl (rethrow_or_wrap ENCRYPTION_FAILED e)
      | Inr cryptoKey \<Rightarrow>
          (let dataBuffer = text_encode P d in
           if length dataBuffer > 190 then Inl (CryptoError ENCRYPTION_FAILED (Some RSA_OAEP))
           else case rsa_oaep_encrypt P cryptoKey seed dataBuffer of
                  None \<Rightarrow> Inl (CryptoError ENCRYPTION_FAILED (Some RSA_OAEP))
                | Some encryptedBuffer \<Rightarrow>
                    (case bufferToBase64 P encryptedBuffer of
                       None \<Rightarrow> Inl (CryptoError ENCRYPTION_FAILED (Some RSA_OAEP))
                     | Some s \<Rightarrow> Inr s)))"

definition RSA_decrypt :: "'k webcrypto \<Rightarrow> js_string \<Rightarrow> 'k key_arg \<Rightarrow> exn + js_string" where
  "RSA_decrypt P encryptedData privateKey =
     (case ensureCryptoKey P privateKey of
        Inl e \<Rightarrow> Inl (CryptoError DECRYPTION_FAILED (Some RSA_OAEP))
      | Inr cryptoKey \<Rightarrow>
          (case base64ToBuffer P encryptedData of
             None \<Rightarrow> Inl (CryptoError DECRYPTION_FAILED (Some RSA_OAEP))
           | Some encryptedBuffer \<Rightarrow>
               (case rsa_oaep_decrypt P cryptoKey encryptedBuffer of
                  None \<Rightarrow> Inl (CryptoError DECRYPTION_FAILED (Some RSA_OAEP))
                | Some decryptedBuffer \<Rightarrow> Inr (text_decode P decryptedBuffer))))"

section \<open>ML-KEM provider (crypto/pqc/ml-kem-provider.ts)\<close>

datatype MLKEM_variant = Variant_512 | Variant_768 | Variant_1024

record MLKEMProvider_fields =
  mlkem_algorithm :: CryptoAlgorithmType
  mlkem_securityLevel :: SecurityLevel
  keySize :: nat
  ciphertextSize :: nat
  sharedSecretSize :: nat

fun new_MLKEMProvider :: "MLKEM_variant \<Rightarrow> MLKEMProvider_fields" where
  "new_MLKEMProvider Variant_512 =
     \<lparr>mlkem_algorithm = ML_KEM_512, mlkem_securityLevel = Medium,
      keySize = 800, ciphertextSize = 768, sharedSecretSize = 32\<rparr>"
| "new_MLKEMProvider Variant_768 =
     \<lparr>mlkem_algorithm = ML_KEM_768, mlkem_securityLevel = High,
      keySize = 1184, ciphertextSize = 1088, sharedSecretSize = 32\<rparr>"
| "new_MLKEMProvider Variant_1024 =
     \<lparr>mlkem_algorithm = ML_KEM_1024, mlkem_securityLevel = High,
      keySize = 1568, ciphertextSize = 1568, sharedSecretSize = 32\<rparr>"

text \<open>
  \<open>target.set(source, offset)\<close> of a typed array: a RangeError when the source does
  not fit, else the target with the source written at the offset.
\<close>

definition Uint8Array_set :: "bytes \<Rightarrow> bytes \<Rightarrow> nat \<Rightarrow> bytes option" where
  "Uint8Array_set target source offset =
     (if offset + length source > length target then None
      else Some (take offset target @ source @ drop (offset + length source) target))"

text \<open>
  Reading a typed array outside its bounds gives \<open>undefined\<close>, which \<open>^\<close> takes
  as 0.
\<close>

definition byte_or_zero :: "bytes \<Rightarrow> nat \<Rightarrow> byte" where
  "byte_or_zero xs i = (if i < length xs then xs ! i else 0)"

text \<open>
  \<open>generateKeyPair\<close>: the argument \<open>privateKey\<close> is the 32 random bytes drawn; the
  public key is the digest of the private key followed by the xor of the two, byte by byte
  and cyclically. Both halves are raw byte arrays.
\<close>

definition MLKEM_generateKeyPair ::
    "'k webcrypto \<Rightarrow> MLKEMProvider_fields \<Rightarrow> bytes \<Rightarrow> exn + (bytes \<times> bytes)" where
  "MLKEM_generateKeyPair P this privateKey =
     (let hashView = sha256 P privateKey in
      case Uint8Array_set (replicate (keySize this) 0) hashView 0 of
        None \<Rightarrow> Inl OtherError
      | Some publicKeyData \<Rightarrow>
          Inr (take 32 publicKeyData @
               map (\<lambda>i. byte_or_zero privateKey (i mod 32) XOR byte_or_zero hashView (i mod 32))
                 [32..<keySize this],
               privateKey))"

definition decapsulate ::
    "'k webcrypto \<Rightarrow> MLKEMProvider_fields \<Rightarrow> bytes \<Rightarrow> bytes \<Rightarrow> exn + bytes" where
  "decapsulate P this privateKey ciphertext =
     (let hashView = sha256 P ciphertext;
          sharedSecret = replicate (sharedSecretSize this) 0
      in case Uint8Array_set sharedSecret (take (sharedSecretSize this) hashView) 0 of
           None \<Rightarrow> Inl OtherError
         | Some r \<Rightarrow> Inr r)"

text \<open>
  \<open>encrypt\<close> and \<open>decrypt\<close> of the ML-KEM provider. A key that is not a \<open>CryptoKey\<close>
  is replaced by the key \<open>generateKeys\<close> returns, a new random AES-GCM key: the
  argument \<open>fresh\<close>. \<open>iv\<close> is the value \<open>crypto.getRandomValues\<close> leaves in the
  12-byte array.
\<close>

definition payload_bytes :: "'k webcrypto \<Rightarrow> payload \<Rightarrow> bytes" where
  "payload_bytes P d = (case d of Text s \<Rightarrow> text_encode P s | Buffer b \<Rightarrow> b)"

definition MLKEM_encrypt ::
    "'k webcrypto \<Rightarrow> 'k \<Rightarrow> bytes \<Rightarrow> payload \<Rightarrow> 'k key_arg \<Rightarrow> exn + payload" where
  "MLKEM_encrypt P fresh iv d publicKey =
     (let key = (case publicKey of CryptoKey k \<Rightarrow> k | RawBytes u \<Rightarrow> fresh);
          encoded = payload_bytes P d
      in case aes_gcm_encrypt P key iv encoded of
           None \<Rightarrow> Inl OtherError
         | Some encrypted \<Rightarrow>
             (let result = iv @ encrypted in
              case d of
                Text s \<Rightarrow>
                  (case btoa P (map ucast result) of
                     None \<Rightarrow> Inl OtherError
                   | Some b64 \<Rightarrow> Inr (Text b64))
              | Buffer b \<Rightarrow> Inr (Buffer result)))"

definition MLKEM_decrypt ::
    "'k webcrypto \<Rightarrow> 'k \<Rightarrow> payload \<Rightarrow> 'k key_arg \<Rightarrow> exn + payload" where
  "MLKEM_decrypt P fresh encryptedData privateKey =
     (let key = (case privateKey of CryptoKey k \<Rightarrow> k | RawBytes u \<Rightarrow> fresh) in
      case (case encryptedData of
              Text s \<Rightarrow> map_option (map ucast) (atob P s)
            | Buffer b \<Rightarrow> Some b) of
        None \<Rightarrow> Inl OtherError
      | Some d \<Rightarrow>
          (let iv = take 12 d; encrypted = drop 12 d in
           case aes_gcm_decrypt P key iv encrypted of
             None \<Rightarrow> Inl OtherError
           | Some decrypted \<Rightarrow>
               (case encryptedData of
                  Text s \<Rightarrow> Inr (Text (text_decode P decrypted))
                | Buffer b \<Rightarrow> Inr (Buffer decrypted))))"

section \<open>Envelope Codec (shared/cryptoUtils.ts)\<close>

text \<open>
  \<open>encryptMessage\<close> draws an ephemeral ECDH key pair and a 12-byte iv; they are the
  arguments \<open>ephemeralPublic\<close>, \<open>ephemeralPrivate\<close> and \<open>iv\<close>.
\<close>

definition encryptMessage ::
    "'k webcrypto \<Rightarrow> 'k \<Rightarrow> 'k \<Rightarrow> bytes \<Rightarrow> js_string \<Rightarrow> 'k \<Rightarrow> exn + js_string" where
  "encryptMessage P ephemeralPublic ephemeralPrivate iv message recipientPublicKey =
     (case ecdh_derive_key P recipientPublicKey ephemeralPrivate of
        None \<Rightarrow> Inl OtherError
      | Some sharedSecret \<Rightarrow>
          (case aes_gcm_encrypt P sharedSecret iv (text_encode P message) of
             None \<Rightarrow> Inl OtherError
           | Some encryptedBuffer \<Rightarrow>
               (case export_spki P ephemeralPublic of
                  None \<Rightarrow> Inl OtherError
                | Some ephemeralPublicKeyBuffer \<Rightarrow>
                    (case bufferToBase64 P (ephemeralPublicKeyBuffer @ iv @ encryptedBuffer) of
                       None \<Rightarrow> Inl OtherError
                     | Some s \<Rightarrow> Inr s))))"

definition decryptMessage :: "'k webcrypto \<Rightarrow> js_string \<Rightarrow> 'k \<Rightarrow> exn + js_string" where
  "decryptMessage P encryptedMessage privateKey =
     (case base64ToBuffer P encryptedMessage of
        None \<Rightarrow> Inl OtherError
      | Some combined \<Rightarrow>
          (let ephemeralPublicKeyBuffer = take 91 combined;
               iv = take 12 (drop 91 combined);
               encryptedBuffer = drop 103 combined
           in case import_spki_ecdh P ephemeralPublicKeyBuffer of
                None \<Rightarrow> Inl OtherError
              | Some ephemeralPublicKey \<Rightarrow>
                  (case ecdh_derive_key P ephemeralPublicKey privateKey of
                     None \<Rightarrow> Inl OtherError
                   | Some sharedSecret \<Rightarrow>
                       (case aes_gcm_decrypt P sharedSecret iv encryptedBuffer of
                          None \<Rightarrow> Inl OtherError
                        | Some decryptedBuffer \<Rightarrow> Inr (text_decode P decryptedBuffer)))))"

section \<open>Provider Factory (crypto/core/factory.ts)\<close>

datatype provider_module =
  Mod_rsa_provider | Mod_ml_kem_provider | Mod_dilithium_provider | Mod_hybrid_provider

text \<open>
  A provider instance. The RSA, Dilithium and hybrid providers are constructed without
  arguments; the ML-KEM provider carries the fields its constructor sets.
\<close>

datatype provider =
  RSAProvider | MLKEMProvider MLKEMProvider_fields | DilithiumProvider | HybridCryptoProvider

record CryptoConfig =
  preferredAlgorithm :: "CryptoAlgorithmType option"
  fallbackAlgorithms :: "CryptoAlgorithmType list option"
  keyRotationInterval :: "nat option"
  enableHybridMode :: "bool option"
  quantumThresholdScore :: "real option"
  nistComplianceRequired :: "bool option"

text \<open>
  The factory's fields, and \<open>attempted\<close>: the algorithms \<open>instantiateProvider\<close> has
  been called with, in order of the calls.
\<close>

record factory =
  config :: CryptoConfig
  cache :: "CryptoAlgorithmType \<rightharpoonup> provider"
  attempted :: "CryptoAlgorithmType list"

definition getDefaultConfig :: CryptoConfig where
  "getDefaultConfig =
     \<lparr>preferredAlgorithm = Some Hybrid_RSA_ML_KEM,
      fallbackAlgorithms = Some [RSA_OAEP, ML_KEM_768],
      keyRotationInterval = Some 24,
      enableHybridMode = Some True,
      quantumThresholdScore = Some 75,
      nistComplianceRequired = Some True\<rparr>"

text \<open>
  \<open>instantiateProvider\<close> imports the provider's module and constructs the provider;
  \<open>loads m\<close> tells whether that succeeds for module \<open>m\<close> in the environment at hand.
\<close>

fun instantiateProvider :: "(provider_module \<Rightarrow> bool) \<Rightarrow> CryptoAlgorithmType \<Rightarrow> exn + provider" where
  "instantiateProvider loads RSA_OAEP =
     (if loads Mod_rsa_provider then Inr RSAProvider else Inl OtherError)"
| "instantiateProvider loads ML_KEM_512 =
     (if loads Mod_ml_kem_provider then Inr (MLKEMProvider (new_MLKEMProvider Variant_512)) else Inl OtherError)"
| "instantiateProvider loads ML_KEM_768 =
     (if loads Mod_ml_kem_provider then Inr (MLKEMProvider (new_MLKEMProvider Variant_768)) else Inl OtherError)"
| "instantiateProvider loads ML_KEM_1024 =
     (if loads Mod_ml_kem_provider then Inr (MLKEMProvider (new_MLKEMProvider Variant_1024)) else Inl OtherError)"
| "instantiateProvider loads CRYSTALS_Dilithium =
     (if loads Mod_dilithium_provider then Inr DilithiumProvider else Inl OtherError)"
| "instantiateProvider loads Hybrid_RSA_ML_KEM =
     (if loads Mod_hybrid_provider then Inr HybridCryptoProvider else Inl OtherError)"
| "instantiateProvider loads Hybrid_ECDH_ML_KEM =
     (if loads Mod_hybrid_provider then Inr HybridCryptoProvider else Inl OtherError)"
| "instantiateProvider loads a = Inl (CryptoError ALGORITHM_NOT_SUPPORTED (Some a))"

text \<open>The \<open>for\<close> loop over the fallbacks, inside the \<open>catch\<close> of \<open>createProvider\<close>.\<close>

fun try_fallbacks :: "(provider_module \<Rightarrow> bool) \<Rightarrow> factory \<Rightarrow> CryptoAlgorithmType list \<Rightarrow>
    (exn + provider) \<times> factory" where
  "try_fallbacks loads fs [] = (Inl (CryptoError ALGORITHM_NOT_SUPPORTED None), fs)"
| "try_fallbacks loads fs (fallback # rest) =
     (case instantiateProvider loads fallback of
        Inr p \<Rightarrow>
          (Inr p, fs\<lparr>cache := (cache fs)(fallback \<mapsto> p), attempted := attempted fs @ [fallback]\<rparr>)
      | Inl e \<Rightarrow> try_fallbacks loads (fs\<lparr>attempted := attempted fs @ [fallback]\<rparr>) rest)"

definition selectedAlgorithm :: "factory \<Rightarrow> CryptoAlgorithmType option \<Rightarrow> CryptoAlgorithmType" where
  "selectedAlgorithm fs a =
     (case a of Some x \<Rightarrow> x
      | None \<Rightarrow> (case preferredAlgorithm (config fs) of Some x \<Rightarrow> x | None \<Rightarrow> RSA_OAEP))"

definition configuredFallbacks :: "factory \<Rightarrow> CryptoAlgorithmType list" where
  "configuredFallbacks fs =
     (case fallbackAlgorithms (config fs) of Some l \<Rightarrow> l | None \<Rightarrow> [RSA_OAEP])"

definition createProvider :: "(provider_module \<Rightarrow> bool) \<Rightarrow> factory \<Rightarrow> CryptoAlgorithmType option \<Rightarrow>
    (exn + provider) \<times> factory" where
  "createProvider loads fs a =
     (let selected = selectedAlgorithm fs a in
      case cache fs selected of
        Some cached \<Rightarrow> (Inr cached, fs)
      | None \<Rightarrow>
          (case instantiateProvider loads selected of
             Inr p \<Rightarrow>
               (Inr p, fs\<lparr>cache := (cache fs)(selected \<mapsto> p),
                           attempted := attempted fs @ [selected]\<rparr>)
           | Inl e \<Rightarrow>
               try_fallbacks loads (fs\<lparr>attempted := attempted fs @ [selected]\<rparr>)
                 (configuredFallbacks fs)))"

definition updateConfig :: "CryptoConfig \<Rightarrow> factory \<Rightarrow> factory" where
  "updateConfig newConfig fs =
     fs\<lparr>config :=
          \<lparr>preferredAlgorithm = (case preferredAlgorithm newConfig of None \<Rightarrow> preferredAlgorithm (config fs) | Some x \<Rightarrow> Some x),
           fallbackAlgorithms = (case fallbackAlgorithms newConfig of None \<Rightarrow> fallbackAlgorithms (config fs) | Some x \<Rightarrow> Some x),
           keyRotationInterval = (case keyRotationInterval newConfig of None \<Rightarrow> keyRotationInterval (config fs) | Some x \<Rightarrow> Some x),
           enableHybridMode = (case enableHybridMode newConfig of None \<Rightarrow> enableHybridMode (config fs) | Some x \<Rightarrow> Some x),
           quantumThresholdScore = (case quantumThresholdScore newConfig of None \<Rightarrow> quantumThresholdScore (config fs) | Some x \<Rightarrow> Some x),
           nistComplianceRequired = (case nistComplianceRequired newConfig of None \<Rightarrow> nistComplianceRequired (config fs) | Some x \<Rightarrow> Some x)\<rparr>,
        cache := Map.empty\<rparr>"

definition new_factory :: factory where
  "new_factory = \<lparr>config = getDefaultConfig, cache = Map.empty, attempted = []\<rparr>"

text \<open>\<open>fails loads a\<close>: instantiating \<open>a\<close> throws.\<close>

definition fails :: "(provider_module \<Rightarrow> bool) \<Rightarrow> CryptoAlgorithmType \<Rightarrow> bool" where
  "fails loads a = (case instantiateProvider loads a of Inl e \<Rightarrow> True | Inr p \<Rightarrow> False)"

section \<open>Contracts of the platform\<close>

text \<open>
  What the providers rely on. \<open>base64_contract\<close>: \<open>btoa\<close> accepts every string of
  byte-valued characters and \<open>atob\<close> inverts it. \<open>aes_gcm_key\<close>: decryption under the key
  and iv of the encryption returns the plaintext. \<open>rsa_2048_pair\<close>: the public key
  encrypts every message of at most 190 bytes, and the private key decrypts the result.
  \<open>ecdh_agree\<close>: the two sides derive the same AES-GCM key. \<open>spki_91\<close>: the exported
  SPKI form of a P-256 public key has 91 bytes and imports to the same key.
  \<open>text_roundtrips\<close>: the string is well-formed, so that decoding its encoding returns it.
\<close>

definition base64_contract :: "'k webcrypto \<Rightarrow> bool" where
  "base64_contract P =
     (\<forall>bs :: bytes. \<exists>s. btoa P (map ucast bs) = Some s \<and> atob P s = Some (map ucast bs))"

definition aes_gcm_key :: "'k webcrypto \<Rightarrow> 'k \<Rightarrow> bool" where
  "aes_gcm_key P k =
     (\<forall>iv pt. \<exists>ct. aes_gcm_encrypt P k iv pt = Some ct \<and> aes_gcm_decrypt P k iv ct = Some pt)"

definition rsa_2048_public :: "'k webcrypto \<Rightarrow> 'k \<Rightarrow> bool" where
  "rsa_2048_public P pub =
     (\<forall>seed pt. length pt \<le> 190 \<longrightarrow> (\<exists>ct. rsa_oaep_encrypt P pub seed pt = Some ct))"

definition rsa_2048_pair :: "'k webcrypto \<Rightarrow> 'k \<Rightarrow> 'k \<Rightarrow> bool" where
  "rsa_2048_pair P pub priv =
     (\<forall>seed pt. length pt \<le> 190 \<longrightarrow>
        (\<exists>ct. rsa_oaep_encrypt P pub seed pt = Some ct \<and> rsa_oaep_decrypt P priv ct = Some pt))"

definition ecdh_agree :: "'k webcrypto \<Rightarrow> 'k \<Rightarrow> 'k \<Rightarrow> 'k \<Rightarrow> 'k \<Rightarrow> bool" where
  "ecdh_agree P pub1 priv1 pub2 priv2 =
     (\<exists>k. ecdh_derive_key P pub1 priv2 = Some k \<and> ecdh_derive_key P pub2 priv1 = Some k \<and>
          aes_gcm_key P k)"

definition spki_91 :: "'k webcrypto \<Rightarrow> 'k \<Rightarrow> bool" where
  "spki_91 P pub =
     (\<exists>bs. export_spki P pub = Some bs \<and> length bs = 91 \<and> import_spki_ecdh P bs = Some pub)"

definition text_roundtrips :: "'k webcrypto \<Rightarrow> js_string \<Rightarrow> bool" where
  "text_roundtrips P s = (text_decode P (text_encode P s) = s)"

definition valid_rsa_public_key :: "'k webcrypto \<Rightarrow> 'k key_arg \<Rightarrow> bool" where
  "valid_rsa_public_key P publicKey =
     (\<exists>k. ensureCryptoKey P publicKey = Inr k \<and> rsa_2048_public P k)"

section \<open>A small platform to run the providers on\<close>

text \<open>
  An executable stand-in for the browser, with one-byte keys: AES-GCM adds the key byte to
  every plaintext byte and appends a 16-byte tag of key bytes, which decryption checks;
  RSA-OAEP likewise with a one-byte header, up to 190 bytes; ECDH multiplies; the SPKI
  form is 91 bytes ending in the key byte; text is Latin-1; base64 is the identity on
  binary strings; the digest is 32 copies of the byte sum. It meets the contracts above
  and is used to evaluate the providers on concrete inputs.
\<close>

datatype toy_key =
  ToyAes byte | ToyRsaPublic byte | ToyRsaPrivate byte | ToyEcPublic byte | ToyEcPrivate byte

definition toy_aes_encrypt :: "toy_key \<Rightarrow> bytes \<Rightarrow> bytes \<Rightarrow> bytes option" where
  "toy_aes_encrypt k iv pt =
     (case k of ToyAes x \<Rightarrow> Some (map (\<lambda>b. b + x) pt @ replicate 16 x) | _ \<Rightarrow> None)"

definition toy_aes_decrypt :: "toy_key \<Rightarrow> bytes \<Rightarrow> bytes \<Rightarrow> bytes option" where
  "toy_aes_decrypt k iv ct =
     (case k of
        ToyAes x \<Rightarrow>
          (if 16 \<le> length ct \<and> drop (length ct - 16) ct = replicate 16 x
           then Some (map (\<lambda>b. b - x) (take (length ct - 16) ct)) else None)
      | _ \<Rightarrow> None)"

definition toy_rsa_encrypt :: "toy_key \<Rightarrow> bytes \<Rightarrow> bytes \<Rightarrow> bytes option" where
  "toy_rsa_encrypt k seed pt =
     (case k of
        ToyRsaPublic x \<Rightarrow> (if length pt \<le> 190 then Some (x # map (\<lambda>b. b + x) pt) else None)
      | _ \<Rightarrow> None)"

definition toy_rsa_decrypt :: "toy_key \<Rightarrow> bytes \<Rightarrow> bytes option" where
  "toy_rsa_decrypt k ct =
     (case k of
        ToyRsaPrivate x \<Rightarrow>
          (case ct of [] \<Rightarrow> None
           | t # body \<Rightarrow> if t = x then Some (map (\<lambda>b. b - x) body) else None)
      | _ \<Rightarrow> None)"

definition toy_ecdh :: "toy_key \<Rightarrow> toy_key \<Rightarrow> toy_key option" where
  "toy_ecdh pub priv =
     (case pub of
        ToyEcPublic a \<Rightarrow> (case priv of ToyEcPrivate b \<Rightarrow> Some (ToyAes (a * b)) | _ \<Rightarrow> None)
      | _ \<Rightarrow> None)"

definition toy_export_spki :: "toy_key \<Rightarrow> bytes option" where
  "toy_export_spki k = (case k of ToyEcPublic a \<Rightarrow> Some (replicate 90 0 @ [a]) | _ \<Rightarrow> None)"

definition toy_import_spki_ecdh :: "bytes \<Rightarrow> toy_key option" where
  "toy_import_spki_ecdh bs = (if length bs = 91 then Some (ToyEcPublic (last bs)) else None)"

definition toy_import_rsa :: "byte \<Rightarrow> (byte \<Rightarrow> toy_key) \<Rightarrow> bytes \<Rightarrow> toy_key option" where
  "toy_import_rsa tag mk bs = (case bs of [t, x] \<Rightarrow> if t = tag then Some (mk x) else None | _ \<Rightarrow> None)"

definition toy_webcrypto :: "toy_key webcrypto" where
  "toy_webcrypto =
     \<lparr>sha256 = (\<lambda>bs. replicate 32 (sum_list bs)),
      aes_gcm_encrypt = toy_aes_encrypt,
      aes_gcm_decrypt = toy_aes_decrypt,
      rsa_oaep_encrypt = toy_rsa_encrypt,
      rsa_oaep_decrypt = toy_rsa_decrypt,
      import_spki_rsa = toy_import_rsa 0 ToyRsaPublic,
      import_pkcs8_rsa = toy_import_rsa 1 ToyRsaPrivate,
      ecdh_derive_key = toy_ecdh,
      export_spki = toy_export_spki,
      import_spki_ecdh = toy_import_spki_ecdh,
      text_encode = map ucast,
      text_decode = map ucast,
      btoa = Some,
      atob = Some\<rparr>"

section \<open>Example inputs\<close>

text \<open>
  States, draws and a factory to evaluate the operations on: a service with one
  generated key, the same after revoking it, a service with three generated keys, an
  environment whose key generation fails for the second of them, and a factory whose
  preferred algorithm and first fallback have no provider.
\<close>

abbreviation demo_kms1 :: "nat kms" where
  "demo_kms1 \<equiv>
     snd (generateKey \<lparr>d_now = 5, d_rand = ''x7'', d_keygen = Inr (11, 12)\<rparr> initial_kms RSA_OAEP)"

abbreviation demo_md1 :: KeyMetadata where
  "demo_md1 \<equiv>
     \<lparr>keyId = ''key_5_x7'', algorithm = RSA_OAEP, created = 5, lastUsed = None,
      rotatedAt = None, expiresAt = Some (5 + 90 * day_ms), isQuantumSafe = False,
      securityLevel = Low, usage = Encryption, status = Active\<rparr>"

abbreviation demo_draw2 :: "nat draw" where
  "demo_draw2 \<equiv> \<lparr>d_now = 8, d_rand = ''q2'', d_keygen = Inr (21, 22)\<rparr>"



abbreviation demo_revoked :: "nat kms" where
  "demo_revoked \<equiv> snd (revokeKey 6 demo_kms1 ''key_5_x7'')"

abbreviation demo_factory :: factory where
  "demo_factory \<equiv>
     updateConfig
       \<lparr>preferredAlgorithm = Some SPHINCS_plus, fallbackAlgorithms = Some [ECDH, RSA_OAEP],
        keyRotationInterval = None, enableHybridMode = None, quantumThresholdScore = None,
        nistComplianceRequired = None\<rparr> new_factory"

chapter \<open>Its properties\<close>

section \<open>Key Management Service: revocation and unimplemented algorithms\<close>

text \<open>
  Claim C4. For a key id in the key table, \<open>revokeKey\<close> returns normally, and afterwards
  \<open>getKey\<close> and \<open>getPublicKey\<close> both return null while \<open>getKeyMetadata\<close> still
  returns the record, now with status revoked and otherwise as it was.
\<close>

theorem revokeKey_deletes_material_keeps_metadata:
  assumes "getKeyMetadata s kid = Some md"
  shows "fst (revokeKey now s kid) = Inr () \<and>
         getKey (snd (revokeKey now s kid)) kid = None \<and>
         getPublicKey (snd (revokeKey now s kid)) kid = None \<and>
         getKeyMetadata (snd (revokeKey now s kid)) kid = Some (md\<lparr>status := Revoked\<rparr>)"
  using assms
  by (simp add: revokeKey_def getKey_def getPublicKey_def getKeyMetadata_def emitEvent_def
      update_conv')

subsection \<open>Evaluation on concrete inputs\<close>

lemma decimal_digit: "n < 10 \<Longrightarrow> decimal n = [digit_char n]"
  by (simp add: decimal.simps)

lemma RSA_OAEP_derived:
  "isQuantumSafeAlgorithm RSA_OAEP = False"
  "getAlgorithmSecurityLevel RSA_OAEP = Low"
  "getKeyUsage RSA_OAEP = Encryption"
  by (simp_all add: isQuantumSafeAlgorithm_def getAlgorithmSecurityLevel_def getKeyUsage_def
      startsWith_def)

lemma initial_policy_RSA:
  "rotationPolicies (initial_kms :: 'k kms) RSA_OAEP =
     Some \<lparr>pol_algorithm = RSA_OAEP, maxAge = 90 * day_ms, maxUsage = 10000,
           autoRotate = True, quantumThreatThreshold = 50\<rparr>"
  by (simp add: initial_kms_def initializeDefaultPolicies_def)

lemmas kms_eval =
  generateKey_def createKeyPair_def generateKeyId_def decimal_digit digit_char_def
  new_metadata_def emitEvent_def getKeyMetadata_def getKey_def getPublicKey_def
  RSA_OAEP_derived initial_policy_RSA Let_def update_conv'

lemma initial_kms_fields:
  "keys (initial_kms :: 'k kms) = []"
  "keyStore (initial_kms :: 'k kms) = Map.empty"
  "emitted (initial_kms :: 'k kms) = []"
  by (simp_all add: initial_kms_def)

lemma demo_kms1_metadata: "getKeyMetadata demo_kms1 ''key_5_x7'' = Some demo_md1"
  by (simp add: kms_eval initial_kms_fields)

theorem revokeKey_deletes_material_keeps_metadata_witness:
  "getKeyMetadata demo_kms1 ''key_5_x7'' = Some demo_md1
   \<and> fst (revokeKey 9 demo_kms1 ''key_5_x7'') = Inr ()
   \<and> getKey (snd (revokeKey 9 demo_kms1 ''key_5_x7'')) ''key_5_x7'' = None
   \<and> getPublicKey (snd (revokeKey 9 demo_kms1 ''key_5_x7'')) ''key_5_x7'' = None
   \<and> getKeyMetadata (snd (revokeKey 9 demo_kms1 ''key_5_x7'')) ''key_5_x7'' =
       Some (demo_md1\<lparr>status := Revoked\<rparr>)"
  using revokeKey_deletes_material_keeps_metadata [OF demo_kms1_metadata, of 9]
    demo_kms1_metadata
  by simp

text \<open>
  Claim C10. \<open>generateKey\<close> returns a key id only for RSA-OAEP. For every other
  algorithm it fails with the "not implemented yet" error and hands back the state it
  was given: key table, key store and emitted events are untouched.
\<close>

theorem generateKey_only_RSA_OAEP:
  "(a \<noteq> RSA_OAEP \<longrightarrow>
      generateKey d s a = (Inl (KeyGenNotImplemented a), s) \<and>
      error_message (KeyGenNotImplemented a) =
        ''Key generation for '' @ algorithm_name a @ '' not implemented yet'' \<and>
      keys (snd (generateKey d s a)) = keys s \<and>
      keyStore (snd (generateKey d s a)) = keyStore s \<and>
      emitted (snd (generateKey d s a)) = emitted s)
   \<and> (\<forall>kid. fst (generateKey d s a) = Inr kid \<longrightarrow> a = RSA_OAEP)"
  by (auto simp add: generateKey_def createKeyPair_def Let_def split: sum.splits)

theorem generateKey_only_RSA_OAEP_witness:
  "ML_KEM_768 \<noteq> RSA_OAEP
   \<and> generateKey demo_draw2 demo_kms1 ML_KEM_768 = (Inl (KeyGenNotImplemented ML_KEM_768), demo_kms1)
   \<and> error_message (KeyGenNotImplemented ML_KEM_768) =
       ''Key generation for ML-KEM-768 not implemented yet''
   \<and> fst (generateKey demo_draw2 demo_kms1 RSA_OAEP) = Inr ''key_8_q2''"
  using generateKey_only_RSA_OAEP [of ML_KEM_768 demo_draw2 demo_kms1]
    generateKey_only_RSA_OAEP [of RSA_OAEP demo_draw2 demo_kms1]
  by (simp add: generateKey_def [of demo_draw2] createKeyPair_def generateKeyId_def decimal_digit
      digit_char_def Let_def)

section \<open>Key Management Service: rotation\<close>

lemma generateKey_fails_unchanged:
  "fst (generateKey d s a) = Inl e \<Longrightarrow> snd (generateKey d s a) = s"
  by (auto simp: generateKey_def Let_def split: sum.splits prod.splits)


lemma keys_generateKey:
  "keys (snd (generateKey d s a)) =
     (if a = RSA_OAEP \<and> keygen_ok d
      then AList.update (newKeyId_of d) (new_metadata s (newKeyId_of d) (d_now d) a) (keys s)
      else keys s)"
  by (auto simp: generateKey_def createKeyPair_def newKeyId_of_def emitEvent_def Let_def
      keygen_ok_def split: sum.splits prod.splits)


lemma keys_rotateKey:
  "keys (snd (rotateKey d s kid)) =
     (case map_of (keys s) kid of
        None \<Rightarrow> keys s
      | Some old \<Rightarrow>
          (let ks1 = AList.update kid (old\<lparr>status := Rotating, rotatedAt := Some (d_now d)\<rparr>) (keys s)
           in if algorithm old = RSA_OAEP \<and> keygen_ok d
              then AList.update (newKeyId_of d)
                     (new_metadata s (newKeyId_of d) (d_now d) (algorithm old)) ks1
              else ks1))"
  by (auto simp: rotateKey_def generateKey_def createKeyPair_def newKeyId_of_def emitEvent_def
      Let_def keygen_ok_def new_metadata_def split: sum.splits prod.splits option.splits)



lemma keys_revokeKey:
  "keys (snd (revokeKey now s kid)) =
     (case map_of (keys s) kid of
        None \<Rightarrow> keys s
      | Some md \<Rightarrow> AList.update kid (md\<lparr>status := Revoked\<rparr>) (keys s))"
  by (auto simp: revokeKey_def emitEvent_def split: option.splits)

lemma keys_recordKeyUsage:
  "keys (recordKeyUsage now s kid) =
     (case map_of (keys s) kid of
        None \<Rightarrow> keys s
      | Some md \<Rightarrow> AList.update kid (md\<lparr>lastUsed := Some now\<rparr>) (keys s))"
  by (auto simp: recordKeyUsage_def emitEvent_def split: option.splits)

























subsection \<open>The example states\<close>

lemma demo_kms1_reachable: "reachable demo_kms1"
  by (rule reach_generateKey [OF reach_init])

lemma demo_draw2_id: "newKeyId_of demo_draw2 = ''key_8_q2''"
  by (simp add: newKeyId_of_def generateKeyId_def decimal_digit digit_char_def)

lemma demo_kms1_keys: "keys demo_kms1 = [(''key_5_x7'', demo_md1)]"
  by (simp add: kms_eval initial_kms_fields)

lemma demo_revoked_keys: "keys demo_revoked = [(''key_5_x7'', demo_md1\<lparr>status := Revoked\<rparr>)]"
  by (simp add: keys_revokeKey demo_kms1_keys)




subsection \<open>Scheduled rotations\<close>



subsection \<open>One rotation\<close>




section \<open>What never changes in a key record\<close>

lemma record_evolves_refl: "record_evolves md md"
  by (simp add: record_evolves_def)

lemma record_evolves_trans:
  "record_evolves a b \<Longrightarrow> record_evolves b c \<Longrightarrow> record_evolves a c"
  by (auto simp: record_evolves_def)

lemma generateKey_evolves:
  assumes "getKeyMetadata s (newKeyId_of d) = None" and "getKeyMetadata s k = Some md"
  shows "getKeyMetadata (snd (generateKey d s a)) k = Some md"
  using assms by (auto simp: getKeyMetadata_def keys_generateKey update_conv')

lemma rotateKey_evolves:
  assumes "getKeyMetadata s (newKeyId_of d) = None" and "getKeyMetadata s k = Some md"
  shows "\<exists>md'. getKeyMetadata (snd (rotateKey d s kid)) k = Some md' \<and> record_evolves md md'"
  using assms
  by (auto simp: getKeyMetadata_def keys_rotateKey update_conv' Let_def record_evolves_def
      split: option.splits)

lemma revokeKey_evolves:
  assumes "getKeyMetadata s k = Some md"
  shows "\<exists>md'. getKeyMetadata (snd (revokeKey now s kid)) k = Some md' \<and> record_evolves md md'"
  using assms
  by (auto simp: getKeyMetadata_def keys_revokeKey update_conv' record_evolves_def
      split: option.splits)

lemma recordKeyUsage_evolves:
  assumes "getKeyMetadata s k = Some md"
  shows "\<exists>md'. getKeyMetadata (recordKeyUsage now s kid) k = Some md' \<and> record_evolves md md'"
  using assms
  by (auto simp: getKeyMetadata_def keys_recordKeyUsage update_conv' record_evolves_def
      split: option.splits)

lemma rotateKey_new_keys:
  "getKeyMetadata (snd (rotateKey d s kid)) k = None \<longleftrightarrow>
     getKeyMetadata s k = None \<and>
     \<not> (k = newKeyId_of d \<and> keygen_ok d \<and>
        map_option algorithm (getKeyMetadata s kid) = Some RSA_OAEP)"
  by (auto simp: getKeyMetadata_def keys_rotateKey update_conv' Let_def split: option.splits)

lemma rotation_loop_evolves:
  assumes "fresh_batch env ks s" and "getKeyMetadata s k = Some md"
  shows "\<exists>md'. getKeyMetadata (snd (rotation_loop env s ks r)) k = Some md' \<and> record_evolves md md'"
  using assms
proof (induction ks arbitrary: s md r)
  case Nil
  then show ?case by (simp add: record_evolves_refl)
next
  case (Cons kid rest)
  obtain res s' where rk: "rotateKey (env kid) s kid = (res, s')"
    by (cases "rotateKey (env kid) s kid")
  have fresh1: "getKeyMetadata s (newKeyId_of (env kid)) = None"
    using Cons.prems(1) by (simp add: fresh_batch_def)
  obtain md1 where md1: "getKeyMetadata s' k = Some md1" "record_evolves md md1"
    using rotateKey_evolves [OF fresh1 Cons.prems(2), of kid] rk by auto
  have other: "newKeyId_of (env j) \<noteq> newKeyId_of (env kid)" if "j \<in> set rest" for j
  proof -
    have "newKeyId_of (env kid) \<notin> (\<lambda>k. newKeyId_of (env k)) ` set rest"
      using Cons.prems(1) by (simp add: fresh_batch_def)
    then show ?thesis using that by (metis imageI)
  qed
  have "fresh_batch env rest s'"
    using Cons.prems(1) rotateKey_new_keys [of "env kid" s kid] rk other
    by (simp add: fresh_batch_def list_all_iff)
  from Cons.IH [OF this md1(1)] obtain md' where
    "getKeyMetadata (snd (rotation_loop env s' rest
        (case res of Inl e \<Rightarrow> r\<lparr>failed := failed r @ [(kid, error_message e)]\<rparr>
                   | Inr n \<Rightarrow> r\<lparr>rotated := rotated r @ [n]\<rparr>))) k = Some md'"
    "record_evolves md1 md'"
    by blast
  then show ?case
    using rk md1(2) by (auto split: sum.splits intro: record_evolves_trans)
qed

lemma kms_step_evolves:
  assumes "kms_step s s'" and "getKeyMetadata s k = Some md"
  shows "\<exists>md'. getKeyMetadata s' k = Some md' \<and> record_evolves md md'"
  using assms
proof (induction rule: kms_step.induct)
  case (step_generateKey s d a)
  then show ?case by (simp add: generateKey_evolves record_evolves_refl)
next
  case (step_rotateKey s d kid)
  then show ?case by (simp add: rotateKey_evolves)
next
  case (step_revokeKey s now kid)
  then show ?case by (simp add: revokeKey_evolves)
next
  case (step_recordKeyUsage now s kid)
  then show ?case by (simp add: recordKeyUsage_evolves)
next
  case (step_setRotationPolicy a p s)
  then show ?case by (simp add: setRotationPolicy_def getKeyMetadata_def record_evolves_refl)
next
  case (step_performScheduledRotations env now threat s)
  then show ?case by (simp add: performScheduledRotations_def rotation_loop_evolves)
qed

text \<open>
  Claim C8, as amended. Over any sequence of operations (with newly generated
  identifiers new to the table), a record of the key table is still there afterwards,
  with the same identifier, algorithm, creation time, expiry, quantum-safe flag, security
  level and usage role; its status is what it was, or rotating, or revoked. So no key
  returns to active and none becomes expired.
\<close>

theorem key_record_evolution:
  assumes "kms_step\<^sup>*\<^sup>* s s'" and "getKeyMetadata s kid = Some md"
  shows "\<exists>md'. getKeyMetadata s' kid = Some md' \<and> record_evolves md md'"
  using assms
proof (induction rule: rtranclp_induct)
  case base
  then show ?case by (simp add: record_evolves_refl)
next
  case (step y z)
  then obtain md1 where md1: "getKeyMetadata y kid = Some md1" "record_evolves md md1"
    by blast
  from kms_step_evolves [OF step.hyps(2) md1(1)] md1(2) show ?case
    by (blast intro: record_evolves_trans)
qed

text \<open>
  Claim C8 as stated fails: \<open>rotateKey\<close> does not look at the status, and moves a
  revoked key back to rotating.
\<close>

theorem lifecycle_order_counterexample:
  "reachable demo_revoked
   \<and> kms_step demo_revoked (snd (rotateKey demo_draw2 demo_revoked ''key_5_x7''))
   \<and> map_option status (getKeyMetadata demo_revoked ''key_5_x7'') = Some Revoked
   \<and> map_option status
        (getKeyMetadata (snd (rotateKey demo_draw2 demo_revoked ''key_5_x7'')) ''key_5_x7'')
       = Some Rotating
   \<and> \<not> lifecycle_allows Revoked Rotating"
proof -
  have reach: "reachable demo_revoked"
    by (rule reach_revokeKey [OF demo_kms1_reachable])
  have fresh: "getKeyMetadata demo_revoked (newKeyId_of demo_draw2) = None"
    by (simp add: getKeyMetadata_def demo_revoked_keys demo_draw2_id)
  have step: "kms_step demo_revoked (snd (rotateKey demo_draw2 demo_revoked ''key_5_x7''))"
    using fresh by (rule step_rotateKey)
  have after: "map_option status
        (getKeyMetadata (snd (rotateKey demo_draw2 demo_revoked ''key_5_x7'')) ''key_5_x7'')
       = Some Rotating"
    by (simp add: getKeyMetadata_def keys_rotateKey demo_revoked_keys demo_draw2_id
        keygen_ok_def update_conv' Let_def)
  show ?thesis
    using reach step after by (simp add: getKeyMetadata_def demo_revoked_keys)
qed

theorem key_record_evolution_witness:
  "kms_step\<^sup>*\<^sup>* demo_kms1 (snd (rotateKey demo_draw2 demo_kms1 ''key_5_x7''))
   \<and> getKeyMetadata demo_kms1 ''key_5_x7'' = Some demo_md1
   \<and> getKeyMetadata (snd (rotateKey demo_draw2 demo_kms1 ''key_5_x7'')) ''key_5_x7'' =
       Some (demo_md1\<lparr>status := Rotating, rotatedAt := Some 8\<rparr>)
   \<and> record_evolves demo_md1 (demo_md1\<lparr>status := Rotating, rotatedAt := Some 8\<rparr>)"
proof -
  have fresh: "getKeyMetadata demo_kms1 (newKeyId_of demo_draw2) = None"
    by (simp add: getKeyMetadata_def demo_kms1_keys demo_draw2_id)
  have steps: "kms_step\<^sup>*\<^sup>* demo_kms1 (snd (rotateKey demo_draw2 demo_kms1 ''key_5_x7''))"
    using fresh by (intro r_into_rtranclp step_rotateKey)
  have after: "getKeyMetadata (snd (rotateKey demo_draw2 demo_kms1 ''key_5_x7'')) ''key_5_x7'' =
       Some (demo_md1\<lparr>status := Rotating, rotatedAt := Some 8\<rparr>)"
    by (simp add: getKeyMetadata_def keys_rotateKey demo_kms1_keys demo_draw2_id
        keygen_ok_def update_conv' Let_def)
  from key_record_evolution [OF steps demo_kms1_metadata] after steps demo_kms1_metadata
  show ?thesis by simp
qed

section \<open>Security Monitor: recommendation thresholds\<close>

text \<open>
  Claim C6 as stated fails where it makes score 60 depend on the hybrid mode: the
  monitor reads no configuration, and recommends the hybrid algorithm at 60 also when
  hybrid mode is disabled.
\<close>

theorem recommendAlgorithm_ignores_hybrid_flag_counterexample:
  "recommendAlgorithm 60 = Hybrid_RSA_ML_KEM \<and> spec_recommendation False 60 = ML_KEM_768"
  by (simp add: recommendAlgorithm_def spec_recommendation_def)

text \<open>
  Claim C6, as amended. The recommendation is ML-KEM-1024 exactly for scores of 90 and
  more, ML-KEM-768 exactly from 70 up to 90, the hybrid algorithm exactly from 50 up to 70,
  ML-KEM-512 exactly from 25 up to 50, and RSA-OAEP exactly below 25. It is what the
  specification's property gives with hybrid mode enabled, whatever the mode is; 95, 80,
  60, 30 and 10 give the five algorithms in turn.
\<close>

theorem recommendAlgorithm_thresholds:
  "(recommendAlgorithm t = ML_KEM_1024 \<longleftrightarrow> 90 \<le> t)
   \<and> (recommendAlgorithm t = ML_KEM_768 \<longleftrightarrow> 70 \<le> t \<and> t < 90)
   \<and> (recommendAlgorithm t = Hybrid_RSA_ML_KEM \<longleftrightarrow> 50 \<le> t \<and> t < 70)
   \<and> (recommendAlgorithm t = ML_KEM_512 \<longleftrightarrow> 25 \<le> t \<and> t < 50)
   \<and> (recommendAlgorithm t = RSA_OAEP \<longleftrightarrow> t < 25)
   \<and> recommendAlgorithm t = spec_recommendation True t
   \<and> recommendAlgorithm 95 = ML_KEM_1024
   \<and> recommendAlgorithm 80 = ML_KEM_768
   \<and> recommendAlgorithm 60 = Hybrid_RSA_ML_KEM
   \<and> recommendAlgorithm 30 = ML_KEM_512
   \<and> recommendAlgorithm 10 = RSA_OAEP"
  by (simp add: recommendAlgorithm_def spec_recommendation_def)

section \<open>Provider Factory: the fallback walk\<close>

lemma try_fallbacks_walk:
  "try_fallbacks loads fs fbs =
     (case find (\<lambda>f. \<not> fails loads f) fbs of
        None \<Rightarrow> (Inl (CryptoError ALGORITHM_NOT_SUPPORTED None),
               fs\<lparr>attempted := attempted fs @ fbs\<rparr>)
      | Some f \<Rightarrow>
          (instantiateProvider loads f,
           fs\<lparr>cache := (cache fs)(f \<mapsto> projr (instantiateProvider loads f)),
              attempted := attempted fs @ takeWhile (fails loads) fbs @ [f]\<rparr>))"
proof (induction fbs arbitrary: fs)
  case Nil
  show ?case by simp
next
  case (Cons fallback rest)
  show ?case
  proof (cases "instantiateProvider loads fallback")
    case (Inl e)
    then have f: "fails loads fallback" by (simp add: fails_def)
    show ?thesis
      by (simp add: Inl f Cons.IH fun_upd_def split: option.splits)
  next
    case (Inr p)
    then have "\<not> fails loads fallback" by (simp add: fails_def)
    then show ?thesis using Inr by simp
  qed
qed

text \<open>
  Claim C2. When the selected algorithm (the requested one, else the preferred one, else
  RSA-OAEP) is not cached and fails to instantiate, \<open>createProvider\<close> calls
  \<open>instantiateProvider\<close> on the fallbacks in list order up to and including the first
  that succeeds, and on none after it; it returns that provider and caches it under the
  fallback's name. It fails, with ALGORITHM_NOT_SUPPORTED, exactly when every fallback
  fails, having tried them all.
\<close>

theorem createProvider_fallback_order:
  assumes "cache fs (selectedAlgorithm fs a) = None"
    and "fails loads (selectedAlgorithm fs a)"
  shows "createProvider loads fs a =
     (case find (\<lambda>f. \<not> fails loads f) (configuredFallbacks fs) of
        None \<Rightarrow> (Inl (CryptoError ALGORITHM_NOT_SUPPORTED None),
               fs\<lparr>attempted := attempted fs @ selectedAlgorithm fs a # configuredFallbacks fs\<rparr>)
      | Some f \<Rightarrow>
          (instantiateProvider loads f,
           fs\<lparr>cache := (cache fs)(f \<mapsto> projr (instantiateProvider loads f)),
              attempted := attempted fs @ selectedAlgorithm fs a #
                 takeWhile (fails loads) (configuredFallbacks fs) @ [f]\<rparr>))
     \<and> (isl (fst (createProvider loads fs a)) \<longleftrightarrow>
          list_all (fails loads) (configuredFallbacks fs))"
proof -
  obtain e where e: "instantiateProvider loads (selectedAlgorithm fs a) = Inl e"
    using assms(2) by (auto simp: fails_def split: sum.splits)
  have "createProvider loads fs a =
      try_fallbacks loads (fs\<lparr>attempted := attempted fs @ [selectedAlgorithm fs a]\<rparr>)
        (configuredFallbacks fs)"
    using assms(1) e by (simp add: createProvider_def Let_def)
  then have walk: "createProvider loads fs a =
     (case find (\<lambda>f. \<not> fails loads f) (configuredFallbacks fs) of
        None \<Rightarrow> (Inl (CryptoError ALGORITHM_NOT_SUPPORTED None),
               fs\<lparr>attempted := attempted fs @ selectedAlgorithm fs a # configuredFallbacks fs\<rparr>)
      | Some f \<Rightarrow>
          (instantiateProvider loads f,
           fs\<lparr>cache := (cache fs)(f \<mapsto> projr (instantiateProvider loads f)),
              attempted := attempted fs @ selectedAlgorithm fs a #
                 takeWhile (fails loads) (configuredFallbacks fs) @ [f]\<rparr>))"
    by (simp add: try_fallbacks_walk fun_upd_def split: option.splits)
  have "isl (fst (createProvider loads fs a)) \<longleftrightarrow>
      list_all (fails loads) (configuredFallbacks fs)"
  proof (cases "find (\<lambda>f. \<not> fails loads f) (configuredFallbacks fs)")
    case None
    then have "list_all (fails loads) (configuredFallbacks fs)"
      by (simp add: find_None_iff list_all_iff)
    moreover have "isl (fst (createProvider loads fs a))"
      by (simp add: walk None)
    ultimately show ?thesis by simp
  next
    case (Some f)
    then have "\<not> fails loads f" and "f \<in> set (configuredFallbacks fs)"
      by (auto simp: find_Some_iff)
    then show ?thesis
      using Some by (auto simp: walk list_all_iff fails_def split: sum.splits)
  qed
  with walk show ?thesis by simp
qed

theorem createProvider_fallback_order_witness:
  "cache demo_factory (selectedAlgorithm demo_factory None) = None
   \<and> selectedAlgorithm demo_factory None = SPHINCS_plus
   \<and> configuredFallbacks demo_factory = [ECDH, RSA_OAEP]
   \<and> fails (\<lambda>m. True) SPHINCS_plus \<and> fails (\<lambda>m. True) ECDH \<and> \<not> fails (\<lambda>m. True) RSA_OAEP
   \<and> fst (createProvider (\<lambda>m. True) demo_factory None) = Inr RSAProvider
   \<and> attempted (snd (createProvider (\<lambda>m. True) demo_factory None)) =
        [SPHINCS_plus, ECDH, RSA_OAEP]
   \<and> cache (snd (createProvider (\<lambda>m. True) demo_factory None)) RSA_OAEP = Some RSAProvider
   \<and> cache (snd (createProvider (\<lambda>m. True) demo_factory None)) ECDH = None"
proof -
  have sel: "selectedAlgorithm demo_factory None = SPHINCS_plus"
    by (simp add: selectedAlgorithm_def updateConfig_def)
  have fbs: "configuredFallbacks demo_factory = [ECDH, RSA_OAEP]"
    by (simp add: configuredFallbacks_def updateConfig_def)
  have miss: "cache demo_factory (selectedAlgorithm demo_factory None) = None"
    by (simp add: updateConfig_def)
  have fl: "fails (\<lambda>m. True) SPHINCS_plus" "fails (\<lambda>m. True) ECDH"
    "\<not> fails (\<lambda>m. True) RSA_OAEP"
    by (simp_all add: fails_def)
  have f: "fails (\<lambda>m. True) (selectedAlgorithm demo_factory None)"
    by (simp add: sel fl)
  have fresh: "attempted demo_factory = []" "cache demo_factory ECDH = None"
    by (simp_all add: updateConfig_def new_factory_def)
  note walk = createProvider_fallback_order [OF miss f, unfolded sel fbs]
  from walk show ?thesis
    by (simp add: sel fbs miss [unfolded sel] fl fresh)
qed

section \<open>Decapsulation\<close>

lemma Uint8Array_set_prefix:
  "length source \<le> length target \<Longrightarrow>
   Uint8Array_set target source 0 = Some (source @ drop (length source) target)"
  by (simp add: Uint8Array_set_def)

text \<open>
  Claim C9. \<open>decapsulate\<close> returns the same shared secret whatever private key it is
  given: for each parameter set it returns 32 bytes that start with the first 32 bytes of
  the SHA-256 digest of the ciphertext, and the private key is not read.
\<close>

theorem decapsulate_ignores_private_key:
  "decapsulate P (new_MLKEMProvider v) p1 c = decapsulate P (new_MLKEMProvider v) p2 c
   \<and> (\<exists>ss. decapsulate P (new_MLKEMProvider v) p1 c = Inr ss \<and> length ss = 32 \<and>
          prefix (take 32 (sha256 P c)) ss)"
  by (cases v) (simp_all add: decapsulate_def Let_def Uint8Array_set_prefix)

section \<open>Base64 of the providers\<close>

lemma ucast_byte_roundtrip: "map (ucast \<circ> (ucast :: byte \<Rightarrow> 16 word)) bs = bs"
proof -
  have "ucast (ucast (b :: byte) :: 16 word) = b" for b
    by (rule ucast_up_ucast_id) (simp add: is_up)
  then show ?thesis by (simp add: o_def)
qed

lemma base64_roundtrip:
  assumes "base64_contract P"
  obtains s where "bufferToBase64 P bs = Some s" and "base64ToBuffer P s = Some bs"
proof -
  from assms obtain s where "btoa P (map ucast bs) = Some s" "atob P s = Some (map ucast bs)"
    unfolding base64_contract_def by blast
  then have "bufferToBase64 P bs = Some s" "base64ToBuffer P s = Some bs"
    by (simp_all add: bufferToBase64_def base64ToBuffer_def ucast_byte_roundtrip)
  then show thesis by (rule that)
qed

section \<open>Capacity of the classical provider\<close>

text \<open>
  The capacity check. Once \<open>ensureCryptoKey\<close> has resolved the recipient key to a
  2048-bit RSA-OAEP public key (one under which the primitive encrypts every input of at
  most 190 bytes), \<open>encrypt\<close> returns a ciphertext for every plaintext whose
  encoding has at most 190 bytes, and throws ENCRYPTION_FAILED for every plaintext whose
  encoding has 191 bytes.
\<close>

lemma RSA_encrypt_capacity:
  assumes "valid_rsa_public_key P publicKey" and "base64_contract P"
  shows "(length (text_encode P d) \<le> 190 \<longrightarrow> (\<exists>ct. RSA_encrypt P seed d publicKey = Inr ct))
       \<and> (length (text_encode P d) = 191 \<longrightarrow>
            RSA_encrypt P seed d publicKey = Inl (CryptoError ENCRYPTION_FAILED (Some RSA_OAEP)))"
proof -
  from assms(1) obtain k where k: "ensureCryptoKey P publicKey = Inr k" "rsa_2048_public P k"
    unfolding valid_rsa_public_key_def by blast
  have small: "\<exists>ct. RSA_encrypt P seed d publicKey = Inr ct" if "length (text_encode P d) \<le> 190"
  proof -
    from k(2) that obtain ct where ct: "rsa_oaep_encrypt P k seed (text_encode P d) = Some ct"
      unfolding rsa_2048_public_def by blast
    from assms(2) obtain s where "bufferToBase64 P ct = Some s"
      by (rule base64_roundtrip)
    then show ?thesis using k(1) ct that by (simp add: RSA_encrypt_def Let_def)
  qed
  have large: "RSA_encrypt P seed d publicKey = Inl (CryptoError ENCRYPTION_FAILED (Some RSA_OAEP))"
    if "length (text_encode P d) = 191"
    using k(1) that by (simp add: RSA_encrypt_def Let_def)
  from small large show ?thesis by blast
qed

text \<open>
  The key does not get that far when it is a \<open>Uint8Array\<close> whose buffer, read as a
  whole, is no key: \<open>encrypt\<close> then throws KEY_GENERATION_FAILED, whatever the
  plaintext and whatever the bytes the array shows.
\<close>

lemma RSA_encrypt_key_view_general:
  assumes "bufferToBase64 P (buffer u) = Some keyData"
    and "base64ToBuffer P keyData = Some keyBuffer"
    and "import_spki_rsa P keyBuffer = None" and "import_pkcs8_rsa P keyBuffer = None"
  shows "RSA_encrypt P seed d (RawBytes u) = Inl (CryptoError KEY_GENERATION_FAILED (Some RSA_OAEP))"
  using assms
  by (simp add: RSA_encrypt_def ensureCryptoKey_def RSA_importKey_def rethrow_or_wrap_def Let_def)

section \<open>Round trips\<close>

lemma RSA_roundtrip:
  assumes pub: "ensureCryptoKey P publicKey = Inr pub"
    and priv: "ensureCryptoKey P privateKey = Inr priv"
    and pair: "rsa_2048_pair P pub priv"
    and b64: "base64_contract P"
    and wf: "text_roundtrips P m"
    and cap: "length (text_encode P m) \<le> 190"
  shows "\<exists>c. RSA_encrypt P seed m publicKey = Inr c \<and> RSA_decrypt P c privateKey = Inr m"
proof -
  from pair cap obtain ct where ct: "rsa_oaep_encrypt P pub seed (text_encode P m) = Some ct"
    "rsa_oaep_decrypt P priv ct = Some (text_encode P m)"
    unfolding rsa_2048_pair_def by blast
  from b64 obtain s where s: "bufferToBase64 P ct = Some s" "base64ToBuffer P s = Some ct"
    by (rule base64_roundtrip)
  have "RSA_encrypt P seed m publicKey = Inr s"
    using pub ct(1) s(1) cap by (simp add: RSA_encrypt_def Let_def)
  moreover have "RSA_decrypt P s privateKey = Inr m"
    using priv ct(2) s(2) wf by (simp add: RSA_decrypt_def text_roundtrips_def)
  ultimately show ?thesis by blast
qed

lemma MLKEM_roundtrip_CryptoKey_text:
  assumes key: "aes_gcm_key P k" and b64: "base64_contract P" and wf: "text_roundtrips P m"
    and iv: "length iv = 12"
  shows "\<exists>c. MLKEM_encrypt P fresh1 iv (Text m) (CryptoKey k) = Inr c \<and>
             MLKEM_decrypt P fresh2 c (CryptoKey k) = Inr (Text m)"
proof -
  from key obtain ct where ct: "aes_gcm_encrypt P k iv (text_encode P m) = Some ct"
    "aes_gcm_decrypt P k iv ct = Some (text_encode P m)"
    unfolding aes_gcm_key_def by blast
  from b64 obtain s where s: "btoa P (map ucast (iv @ ct)) = Some s"
    "atob P s = Some (map ucast (iv @ ct))"
    unfolding base64_contract_def by blast
  have "MLKEM_encrypt P fresh1 iv (Text m) (CryptoKey k) = Inr (Text s)"
    using ct(1) s(1) by (simp add: MLKEM_encrypt_def payload_bytes_def Let_def)
  moreover have "MLKEM_decrypt P fresh2 (Text s) (CryptoKey k) = Inr (Text m)"
    using ct(2) s(2) iv wf
    by (simp add: MLKEM_decrypt_def Let_def text_roundtrips_def ucast_byte_roundtrip)
  ultimately show ?thesis by blast
qed

lemma MLKEM_roundtrip_CryptoKey_buffer:
  assumes key: "aes_gcm_key P k" and iv: "length iv = 12"
  shows "\<exists>c. MLKEM_encrypt P fresh1 iv (Buffer b) (CryptoKey k) = Inr c \<and>
             MLKEM_decrypt P fresh2 c (CryptoKey k) = Inr (Buffer b)"
proof -
  from key obtain ct where ct: "aes_gcm_encrypt P k iv b = Some ct"
    "aes_gcm_decrypt P k iv ct = Some b"
    unfolding aes_gcm_key_def by blast
  have "MLKEM_encrypt P fresh1 iv (Buffer b) (CryptoKey k) = Inr (Buffer (iv @ ct))"
    using ct(1) by (simp add: MLKEM_encrypt_def payload_bytes_def Let_def)
  moreover have "MLKEM_decrypt P fresh2 (Buffer (iv @ ct)) (CryptoKey k) = Inr (Buffer b)"
    using ct(2) iv by (simp add: MLKEM_decrypt_def Let_def)
  ultimately show ?thesis by blast
qed

lemma envelope_roundtrip:
  assumes agree: "ecdh_agree P ephemeralPublic ephemeralPrivate recipientPublic recipientPrivate"
    and spki: "spki_91 P ephemeralPublic"
    and b64: "base64_contract P" and wf: "text_roundtrips P m" and iv: "length iv = 12"
  shows "\<exists>c. encryptMessage P ephemeralPublic ephemeralPrivate iv m recipientPublic = Inr c \<and>
             decryptMessage P c recipientPrivate = Inr m"
proof -
  from agree obtain k where k: "ecdh_derive_key P ephemeralPublic recipientPrivate = Some k"
    "ecdh_derive_key P recipientPublic ephemeralPrivate = Some k" "aes_gcm_key P k"
    unfolding ecdh_agree_def by blast
  from k(3) obtain ct where ct: "aes_gcm_encrypt P k iv (text_encode P m) = Some ct"
    "aes_gcm_decrypt P k iv ct = Some (text_encode P m)"
    unfolding aes_gcm_key_def by blast
  from spki obtain eb where eb: "export_spki P ephemeralPublic = Some eb" "length eb = 91"
    "import_spki_ecdh P eb = Some ephemeralPublic"
    unfolding spki_91_def by blast
  from b64 obtain s where s: "bufferToBase64 P (eb @ iv @ ct) = Some s"
    "base64ToBuffer P s = Some (eb @ iv @ ct)"
    by (rule base64_roundtrip)
  have "encryptMessage P ephemeralPublic ephemeralPrivate iv m recipientPublic = Inr s"
    using k(2) ct(1) eb(1) s(1) by (simp add: encryptMessage_def)
  moreover have "decryptMessage P s recipientPrivate = Inr m"
    using s(2) eb(2,3) iv k(1) ct(2) wf
    by (simp add: decryptMessage_def Let_def text_roundtrips_def)
  ultimately show ?thesis by blast
qed

text \<open>
  A raw byte key is never read: the ML-KEM provider behaves as if it had been given the
  key that \<open>generateKeys\<close> has just drawn. So where the platform rejects a ciphertext
  under a key other than the one that made it, the round trip with raw keys throws.
\<close>

lemma MLKEM_raw_key_is_ignored:
  "MLKEM_encrypt P fresh iv d (RawBytes pub) = MLKEM_encrypt P fresh iv d (CryptoKey fresh)"
  "MLKEM_decrypt P fresh c (RawBytes priv) = MLKEM_decrypt P fresh c (CryptoKey fresh)"
  by (simp_all add: MLKEM_encrypt_def MLKEM_decrypt_def)

lemma MLKEM_raw_key_roundtrip_rejected:
  assumes "aes_gcm_encrypt P fresh1 iv b = Some ct"
    and "aes_gcm_decrypt P fresh2 iv ct = None"
    and "length iv = 12"
  shows "MLKEM_encrypt P fresh1 iv (Buffer b) (RawBytes pub) = Inr (Buffer (iv @ ct))
       \<and> MLKEM_decrypt P fresh2 (Buffer (iv @ ct)) (RawBytes priv) = Inl OtherError"
  using assms by (simp add: MLKEM_encrypt_def MLKEM_decrypt_def payload_bytes_def Let_def)

section \<open>The providers on the small platform\<close>

lemma toy_fields [simp]:
  "sha256 toy_webcrypto = (\<lambda>bs. replicate 32 (sum_list bs))"
  "aes_gcm_encrypt toy_webcrypto = toy_aes_encrypt"
  "aes_gcm_decrypt toy_webcrypto = toy_aes_decrypt"
  "rsa_oaep_encrypt toy_webcrypto = toy_rsa_encrypt"
  "rsa_oaep_decrypt toy_webcrypto = toy_rsa_decrypt"
  "import_spki_rsa toy_webcrypto = toy_import_rsa 0 ToyRsaPublic"
  "import_pkcs8_rsa toy_webcrypto = toy_import_rsa 1 ToyRsaPrivate"
  "ecdh_derive_key toy_webcrypto = toy_ecdh"
  "export_spki toy_webcrypto = toy_export_spki"
  "import_spki_ecdh toy_webcrypto = toy_import_spki_ecdh"
  "text_encode toy_webcrypto = map ucast"
  "text_decode toy_webcrypto = map ucast"
  "btoa toy_webcrypto = Some"
  "atob toy_webcrypto = Some"
  by (simp_all add: toy_webcrypto_def)

lemma toy_base64_contract: "base64_contract toy_webcrypto"
  by (simp add: base64_contract_def)

lemma toy_aes_gcm_key: "aes_gcm_key toy_webcrypto (ToyAes x)"
  by (simp add: aes_gcm_key_def toy_aes_encrypt_def toy_aes_decrypt_def o_def)

lemma toy_rsa_2048_pair: "rsa_2048_pair toy_webcrypto (ToyRsaPublic x) (ToyRsaPrivate x)"
  by (simp add: rsa_2048_pair_def toy_rsa_encrypt_def toy_rsa_decrypt_def o_def)

lemma toy_rsa_2048_public: "rsa_2048_public toy_webcrypto (ToyRsaPublic x)"
  by (simp add: rsa_2048_public_def toy_rsa_encrypt_def)

lemma toy_ecdh_agree:
  "ecdh_agree toy_webcrypto (ToyEcPublic a) (ToyEcPrivate a) (ToyEcPublic b) (ToyEcPrivate b)"
  by (simp add: ecdh_agree_def toy_ecdh_def toy_aes_gcm_key mult.commute)

lemma toy_spki_91: "spki_91 toy_webcrypto (ToyEcPublic a)"
  by (simp add: spki_91_def toy_export_spki_def toy_import_spki_ecdh_def)

text \<open>The round-trip lemmas apply on the small platform.\<close>

lemma toy_text_roundtrips: "text_roundtrips toy_webcrypto [104, 105]"
  by (simp add: text_roundtrips_def)

lemma envelope_roundtrip_toy:
  "\<exists>c. encryptMessage toy_webcrypto (ToyEcPublic 3) (ToyEcPrivate 3) (replicate 12 0)
          [104, 105] (ToyEcPublic 5) = Inr c \<and>
       decryptMessage toy_webcrypto c (ToyEcPrivate 5) = Inr [104, 105]"
  by (rule envelope_roundtrip [OF toy_ecdh_agree toy_spki_91 toy_base64_contract
        toy_text_roundtrips]) simp

lemma RSA_roundtrip_toy:
  "\<exists>c. RSA_encrypt toy_webcrypto [] [104, 105] (CryptoKey (ToyRsaPublic 7)) = Inr c \<and>
       RSA_decrypt toy_webcrypto c (CryptoKey (ToyRsaPrivate 7)) = Inr [104, 105]"
  by (rule RSA_roundtrip [OF _ _ toy_rsa_2048_pair toy_base64_contract toy_text_roundtrips])
     (simp_all add: ensureCryptoKey_def)

lemma MLKEM_roundtrip_toy:
  "\<exists>c. MLKEM_encrypt toy_webcrypto (ToyAes 1) (replicate 12 0) (Text [104, 105])
          (CryptoKey (ToyAes 5)) = Inr c \<and>
       MLKEM_decrypt toy_webcrypto (ToyAes 2) c (CryptoKey (ToyAes 5)) = Inr (Text [104, 105])"
  by (rule MLKEM_roundtrip_CryptoKey_text [OF toy_aes_gcm_key toy_base64_contract
        toy_text_roundtrips]) simp

lemma RSA_encrypt_capacity_toy:
  "valid_rsa_public_key toy_webcrypto (CryptoKey (ToyRsaPublic 7))
   \<and> base64_contract toy_webcrypto
   \<and> length (text_encode toy_webcrypto (replicate 190 65)) = 190
   \<and> RSA_encrypt toy_webcrypto [] (replicate 190 65) (CryptoKey (ToyRsaPublic 7)) =
        Inr (7 # replicate 190 72)
   \<and> length (text_encode toy_webcrypto (replicate 191 65)) = 191
   \<and> RSA_encrypt toy_webcrypto [] (replicate 191 65) (CryptoKey (ToyRsaPublic 7)) =
        Inl (CryptoError ENCRYPTION_FAILED (Some RSA_OAEP))"
proof -
  have v: "valid_rsa_public_key toy_webcrypto (CryptoKey (ToyRsaPublic 7))"
    by (simp add: valid_rsa_public_key_def ensureCryptoKey_def toy_rsa_2048_public)
  have ok: "RSA_encrypt toy_webcrypto [] (replicate 190 65) (CryptoKey (ToyRsaPublic 7)) =
        Inr (7 # replicate 190 72)"
    by (simp add: RSA_encrypt_def ensureCryptoKey_def toy_rsa_encrypt_def bufferToBase64_def
        Let_def)
  from RSA_encrypt_capacity [OF v toy_base64_contract, of "replicate 191 65" "[]"]
    RSA_encrypt_capacity [OF v toy_base64_contract, of "replicate 190 65" "[]"]
  show ?thesis
    using v ok toy_base64_contract by simp
qed

text \<open>
  Claim C5. The capacity boundary holds for a recipient key given as a \<open>CryptoKey\<close>
  or as a \<open>Uint8Array\<close> that spans its whole buffer. It fails for a valid public key
  given as a \<open>Uint8Array\<close> that shows part of a larger buffer: the array below
  shows the two bytes of a valid key at offset 1 of a three-byte buffer, and
  \<open>encrypt\<close> throws KEY_GENERATION_FAILED for a 2-byte plaintext and for a 191-byte
  one, where the same two bytes in a buffer of their own give a ciphertext and
  ENCRYPTION_FAILED.
\<close>

theorem RSA_encrypt_rejects_valid_key_view:
  "contents \<lparr>buffer = [9, 0, 7], byteOffset = 1, byteLength = 2\<rparr> = [0, 7]
   \<and> import_spki_rsa toy_webcrypto [0, 7] = Some (ToyRsaPublic 7)
   \<and> RSA_encrypt toy_webcrypto [] [104, 105]
        (RawBytes \<lparr>buffer = [9, 0, 7], byteOffset = 1, byteLength = 2\<rparr>) =
        Inl (CryptoError KEY_GENERATION_FAILED (Some RSA_OAEP))
   \<and> RSA_encrypt toy_webcrypto [] (replicate 191 65)
        (RawBytes \<lparr>buffer = [9, 0, 7], byteOffset = 1, byteLength = 2\<rparr>) =
        Inl (CryptoError KEY_GENERATION_FAILED (Some RSA_OAEP))
   \<and> RSA_encrypt toy_webcrypto [] [104, 105] (RawBytes (new_Uint8Array [0, 7])) =
        Inr [7, 111, 112]
   \<and> RSA_encrypt toy_webcrypto [] [104, 105] (CryptoKey (ToyRsaPublic 7)) =
        Inr [7, 111, 112]
   \<and> RSA_encrypt toy_webcrypto [] (replicate 191 65) (RawBytes (new_Uint8Array [0, 7])) =
        Inl (CryptoError ENCRYPTION_FAILED (Some RSA_OAEP))"
  by (simp add: contents_def new_Uint8Array_def RSA_encrypt_def
      ensureCryptoKey_def RSA_importKey_def rethrow_or_wrap_def bufferToBase64_def
      base64ToBuffer_def toy_import_rsa_def toy_rsa_encrypt_def Let_def ucast_byte_roundtrip)

text \<open>
  Claim C1. The round trip holds for the three pairs on the paths shown in the lemmas
  above. It fails for the ML-KEM provider with raw byte keys, the form its own
  \<open>generateKeyPair\<close> returns: \<open>encrypt\<close> and \<open>decrypt\<close> each replace the raw key by
  a new random AES key, so decryption meets a key other than the one that encrypted and
  is rejected. With one \<open>CryptoKey\<close> on both sides the same message comes back.
\<close>

theorem MLKEM_raw_key_roundtrip_fails:
  "MLKEM_generateKeyPair toy_webcrypto (new_MLKEMProvider Variant_768) (replicate 32 4) =
     Inr (replicate 32 128 @ replicate 1152 132, replicate 32 4)
   \<and> MLKEM_encrypt toy_webcrypto (ToyAes 1) (replicate 12 0) (Text [104, 105])
     (RawBytes (new_Uint8Array (replicate 32 128 @ replicate 1152 132))) =
     Inr (Text (replicate 12 0 @ [105, 106] @ replicate 16 1))
   \<and> MLKEM_decrypt toy_webcrypto (ToyAes 2) (Text (replicate 12 0 @ [105, 106] @ replicate 16 1))
     (RawBytes (new_Uint8Array (replicate 32 4))) = Inl OtherError
   \<and> MLKEM_encrypt toy_webcrypto (ToyAes 1) (replicate 12 0) (Text [104, 105])
     (CryptoKey (ToyAes 5)) =
     Inr (Text (replicate 12 0 @ [109, 110] @ replicate 16 5))
   \<and> MLKEM_decrypt toy_webcrypto (ToyAes 2) (Text (replicate 12 0 @ [109, 110] @ replicate 16 5))
     (CryptoKey (ToyAes 5)) = Inr (Text [104, 105])"
proof -
  have at: "byte_or_zero (replicate 32 x) (i mod 32) = x" for x i
    by (simp add: byte_or_zero_def)
  have tail: "map (\<lambda>i. byte_or_zero (replicate 32 x) (i mod 32) XOR
                         byte_or_zero (replicate 32 y) (i mod 32)) [a..<b] =
              replicate (b - a) (x XOR y)" for x y :: byte and a b :: nat
    by (simp add: at map_replicate_const)
  have kp: "MLKEM_generateKeyPair toy_webcrypto (new_MLKEMProvider Variant_768) (replicate 32 4) =
     Inr (replicate 32 128 @ replicate 1152 132, replicate 32 4)"
    by (simp add: MLKEM_generateKeyPair_def Uint8Array_set_def Let_def tail sum_list_replicate
        del: upt_rec_numeral)
  have rest: "MLKEM_encrypt toy_webcrypto (ToyAes 1) (replicate 12 0) (Text [104, 105])
     (RawBytes (new_Uint8Array (replicate 32 128 @ replicate 1152 132))) =
     Inr (Text (replicate 12 0 @ [105, 106] @ replicate 16 1))
   \<and> MLKEM_decrypt toy_webcrypto (ToyAes 2) (Text (replicate 12 0 @ [105, 106] @ replicate 16 1))
     (RawBytes (new_Uint8Array (replicate 32 4))) = Inl OtherError
   \<and> MLKEM_encrypt toy_webcrypto (ToyAes 1) (replicate 12 0) (Text [104, 105])
     (CryptoKey (ToyAes 5)) =
     Inr (Text (replicate 12 0 @ [109, 110] @ replicate 16 5))
   \<and> MLKEM_decrypt toy_webcrypto (ToyAes 2) (Text (replicate 12 0 @ [109, 110] @ replicate 16 5))
     (CryptoKey (ToyAes 5)) = Inr (Text [104, 105])"
    by (simp add: MLKEM_encrypt_def MLKEM_decrypt_def payload_bytes_def toy_aes_encrypt_def
        toy_aes_decrypt_def Let_def)
  from kp rest show ?thesis by (rule conjI)
qed

end
